theory Spec2Isabelle
  imports Complex_Main "HOL-Library.AList"
begin

section \<open>Python values, errors and the calls made on collaborators\<close>

text \<open>
  The values that \<open>device_base.py\<close> passes around without looking inside them: settings
  values, payloads, the \<open>retain\<close> flag of an inbound message. A Python float is
  modelled as a real; nothing below depends on rounding.
\<close>

datatype pyval = PNone | PBool bool | PInt int | PFloat real | PStr string

text \<open>The exceptions the module can raise.\<close>

datatype error = AssertionError | TypeError | KeyError string

text \<open>
  A subscription handler is a callable stored in \<open>mqtt_subscription_handlers\<close>: the
  device's own bound method \<open>broadcast_handler\<close>, or a callable handed out by a node.
\<close>

datatype handler = Broadcast_Handler | Node_Handler nat

text \<open>
  Every call that leaves the module is recorded, in order: the calls on the MQTT client
  (tagged with the client object they are made on), on a node, on the shared timer, on
  a handler, and the warnings given to the logger. The logger's level is \<open>INFO\<close>, so
  \<open>logger.debug\<close> lines are discarded and are not modelled.
\<close>

datatype event =
    Publish nat string pyval bool nat
  | Subscribe nat string nat
  | Unsubscribe nat string
  | Set_Will nat string pyval bool nat
  | Node_Publish_Attributes string bool nat
  | Timer_Add_Callback nat
  | Handler_Call handler string pyval
  | Warning_Invalid_State pyval
  | Warning_Retained string pyval pyval nat

section \<open>Objects\<close>

text \<open>The MQTT client object as the device reads it (the client itself is external).\<close>

record mqtt_client_obj =
  mqtt_connected :: bool
  using_shared_mqtt_client :: bool
  mac_ip_address :: "pyval \<times> pyval"

text \<open>
  A node as the device uses it: its \<open>id\<close> and the items of \<open>get_subscriptions()\<close>.
\<close>

record node =
  node_id :: string
  get_subscriptions :: "(string \<times> handler) list"

text \<open>
  The fields of \<open>Device_Base\<close>, as \<open>__init__\<close> assigns them. \<open>_mqtt_connected\<close> and
  \<open>_state\<close> are written \<open>priv_mqtt_connected\<close> and \<open>priv_state\<close>. \<open>nodes\<close> is an
  insertion-ordered dict, hence an association list; \<open>mqtt_client\<close> is a reference
  to a client object that several devices may share.
\<close>

record device =
  instance_number :: nat
  priv_mqtt_connected :: bool
  device_id :: string
  name :: string
  extensions :: "string list"
  priv_state :: pyval
  homie_settings :: "string \<rightharpoonup> pyval"
  topic :: string
  retained :: bool
  qos :: nat
  nodes :: "(string \<times> node) list"
  start_time :: "real option"
  nodes_published :: bool
  mqtt_client :: nat
  mqtt_subscription_handlers :: "string \<rightharpoonup> handler"

text \<open>
  What lives outside a device: the module globals \<open>instance_count\<close> and
  \<open>repeating_timer\<close>, the constants \<open>homie.__version__\<close> and \<open>sys.platform\<close>, the client
  objects by reference, the clock (the successive results of \<open>time.time()\<close> and of
  \<open>datetime.now().strftime(...)\<close>, with the number of reads so far), and the record of
  calls.
\<close>

record env =
  instance_count :: nat
  repeating_timer :: "pyval option"
  homie_version :: string
  sys_platform :: string
  clients :: "nat \<Rightarrow> mqtt_client_obj"
  time_readings :: "nat \<Rightarrow> real"
  strftime_readings :: "nat \<Rightarrow> string"
  clock_reads :: nat
  log :: "event list"

section \<open>Constants of the module\<close>

definition DEVICE_STATES :: "pyval list" where
  "DEVICE_STATES =
     [PStr ''init'', PStr ''ready'', PStr ''disconnected'', PStr ''sleeping'',
      PStr ''alert'', PStr ''lost'']"

definition HOMIE_SETTINGS :: "env \<Rightarrow> (string \<times> pyval) list" where
  "HOMIE_SETTINGS e =
     [(''version'', PStr ''4.0.0''),
      (''topic'', PStr ''homie''),
      (''fw_name'', PStr ''homie4''),
      (''fw_version'', PStr (homie_version e)),
      (''update_interval'', PInt 60),
      (''implementation'', PStr (sys_platform e))]"

definition EXTENSIONS :: "string list" where
  "EXTENSIONS = [''stats'', ''firmware'', ''meta'']"

section \<open>Statements\<close>

text \<open>
  A method body runs on the device and the environment and returns both, changed, with
  the exception it raised if it raised one: what was done before a \<open>raise\<close> stays done.
\<close>

type_synonym action = "device \<times> env \<Rightarrow> error option \<times> device \<times> env"

definition skip :: action where
  "skip s = (None, s)"

definition raise :: "error \<Rightarrow> action" where
  "raise err s = (Some err, s)"

definition seq :: "action \<Rightarrow> action \<Rightarrow> action" where
  "seq f g s = (case f s of (Some err, s') \<Rightarrow> (Some err, s') | (None, s') \<Rightarrow> g s')"

text \<open>A block of statements, and a \<open>for\<close> loop over a list.\<close>

fun block :: "action list \<Rightarrow> action" where
  "block [] = skip"
| "block (f # fs) = seq f (block fs)"

definition for_each :: "'a list \<Rightarrow> ('a \<Rightarrow> action) \<Rightarrow> action" where
  "for_each xs body = block (map body xs)"

text \<open>Python's \<open>sep.join(xs)\<close> on strings.\<close>

fun join :: "string \<Rightarrow> string list \<Rightarrow> string" where
  "join sep [] = []"
| "join sep [x] = x"
| "join sep (x # y # ys) = x @ sep @ join sep (y # ys)"

text \<open>\<open>d[k]\<close> on a dict: the value, or \<open>KeyError\<close>.\<close>

definition getitem :: "(string \<rightharpoonup> 'v) \<Rightarrow> string \<Rightarrow> error + 'v" where
  "getitem d k = (case d k of None \<Rightarrow> Inl (KeyError k) | Some v \<Rightarrow> Inr v)"

text \<open>The calls on the MQTT client and on the logger: each is recorded and returns.\<close>

definition emit :: "event \<Rightarrow> action" where
  "emit ev = (\<lambda>(self, e). (None, self, e\<lparr>log := log e @ [ev]\<rparr>))"

text \<open>\<open>time.time()\<close> and \<open>datetime.now().strftime("%d/%m/%Y %H:%M:%S")\<close>.\<close>

definition time_time :: "env \<Rightarrow> real \<times> env" where
  "time_time e = (time_readings e (clock_reads e), e\<lparr>clock_reads := Suc (clock_reads e)\<rparr>)"

definition datetime_now_strftime :: "env \<Rightarrow> string \<times> env" where
  "datetime_now_strftime e =
     (strftime_readings e (clock_reads e), e\<lparr>clock_reads := Suc (clock_reads e)\<rparr>)"

section \<open>Device_Base\<close>

definition publish :: "string \<Rightarrow> pyval \<Rightarrow> bool \<Rightarrow> nat \<Rightarrow> action" where
  "publish tpc payload retain q =
     (\<lambda>(self, e). emit (Publish (mqtt_client self) tpc payload retain q) (self, e))"

text \<open>
  The setter of the property \<open>state\<close>. An assignment \<open>device.state = v\<close> passes the value
  only, so \<open>retain\<close> and \<open>qos\<close> take their defaults \<open>True\<close> and \<open>1\<close>.
\<close>

definition state_setter :: "pyval \<Rightarrow> bool \<Rightarrow> nat \<Rightarrow> action" where
  "state_setter state retain q =
     (\<lambda>(self, e).
        if state \<in> set DEVICE_STATES then
          (let self = self\<lparr>priv_state := state\<rparr>
           in publish (join ''/'' [topic self, ''$state'']) (priv_state self) retain q (self, e))
        else emit (Warning_Invalid_State state) (self, e))"

definition assign_state :: "pyval \<Rightarrow> action" where
  "assign_state v = state_setter v True 1"

text \<open>\<open>d[k]\<close> as an argument of a statement: the statement runs on the value, or the
  \<open>KeyError\<close> is raised.\<close>

definition subscript :: "(device \<Rightarrow> string \<rightharpoonup> pyval) \<Rightarrow> string \<Rightarrow> (pyval \<Rightarrow> action) \<Rightarrow> action" where
  "subscript d k body =
     (\<lambda>(self, e). case getitem (d self) k of
                     Inl err \<Rightarrow> raise err (self, e)
                   | Inr v \<Rightarrow> body v (self, e))"

text \<open>
  \<open>time.time()-self.start_time\<close>: the clock is read first; the subtraction raises
  \<open>TypeError\<close> while \<open>start_time\<close> is \<open>None\<close>, that is before \<open>start()\<close>.
\<close>

definition uptime :: "(pyval \<Rightarrow> action) \<Rightarrow> action" where
  "uptime body =
     (\<lambda>(self, e).
        let (t, e) = time_time e
        in case start_time self of
             None \<Rightarrow> raise TypeError (self, e)
           | Some t0 \<Rightarrow> body (PFloat (t - t0)) (self, e))"

definition lastupdate :: "(pyval \<Rightarrow> action) \<Rightarrow> action" where
  "lastupdate body =
     (\<lambda>(self, e). let (s, e) = datetime_now_strftime e in body (PStr s) (self, e))"

definition publish_statastics :: "bool \<Rightarrow> nat \<Rightarrow> action" where
  "publish_statastics retain q =
     block
      [subscript homie_settings ''update_interval''
         (\<lambda>v (self, e). publish (join ''/'' [topic self, ''$stats/interval'']) v retain q (self, e)),
       uptime
         (\<lambda>v (self, e). publish (join ''/'' [topic self, ''$stats/uptime'']) v retain q (self, e)),
       lastupdate
         (\<lambda>v (self, e). publish (join ''/'' [topic self, ''$stats/lastupdate'']) v retain q (self, e))]"

definition publish_uptime :: "bool \<Rightarrow> nat \<Rightarrow> action" where
  "publish_uptime retain q =
     block
      [uptime
         (\<lambda>v (self, e). publish (join ''/'' [topic self, ''$stats/uptime'']) v retain q (self, e)),
       lastupdate
         (\<lambda>v (self, e). publish (join ''/'' [topic self, ''$stats/lastupdate'']) v retain q (self, e))]"

definition publish_firmware :: "bool \<Rightarrow> nat \<Rightarrow> action" where
  "publish_firmware retain q =
     (\<lambda>(self, e).
        let (mac, ip) = mac_ip_address (clients e (mqtt_client self))
        in block
            [(\<lambda>(self, e). publish (join ''/'' [topic self, ''$localip'']) ip retain q (self, e)),
             (\<lambda>(self, e). publish (join ''/'' [topic self, ''$mac'']) mac retain q (self, e)),
             subscript homie_settings ''fw_name''
               (\<lambda>v (self, e). publish (join ''/'' [topic self, ''$fw/name'']) v retain q (self, e)),
             subscript homie_settings ''fw_version''
               (\<lambda>v (self, e). publish (join ''/'' [topic self, ''$fw/version'']) v retain q (self, e)),
             subscript homie_settings ''implementation''
               (\<lambda>v (self, e).
                  publish (join ''/'' [topic self, ''$implementation'']) v retain q (self, e))]
            (self, e))"

text \<open>
  \<open>extensions is not ''\<close> compares identities; CPython has one empty string object, and
  \<open>','.join\<close> returns it for an empty result, so the test is that of \<open>!=\<close>.
\<close>

definition publish_extensions :: "bool \<Rightarrow> nat \<Rightarrow> action" where
  "publish_extensions retain q =
     (\<lambda>(self, e).
        let exts = join '','' (extensions self)
        in block
            [(\<lambda>(self, e).
                if exts \<noteq> [] then
                  publish (join ''/'' [topic self, ''$extensions'']) (PStr exts) retain q (self, e)
                else skip (self, e)),
             (\<lambda>(self, e).
                if ''stats'' \<in> set (extensions self) then publish_statastics retain q (self, e)
                else skip (self, e)),
             (\<lambda>(self, e).
                if ''firmware'' \<in> set (extensions self) then publish_firmware retain q (self, e)
                else skip (self, e))]
            (self, e))"

definition publish_attributes :: "bool \<Rightarrow> nat \<Rightarrow> action" where
  "publish_attributes retain q =
     block
      [subscript homie_settings ''version''
         (\<lambda>v (self, e). publish (join ''/'' [topic self, ''$homie'']) v retain q (self, e)),
       (\<lambda>(self, e). publish (join ''/'' [topic self, ''$name'']) (PStr (name self)) retain q (self, e)),
       subscript homie_settings ''implementation''
         (\<lambda>v (self, e). publish (join ''/'' [topic self, ''$implementation'']) v retain q (self, e)),
       publish_extensions retain q,
       assign_state (PStr ''ready'')]"

text \<open>\<open>cleanup\<close> is registered with \<open>atexit\<close> by the constructor.\<close>

definition cleanup :: action where
  "cleanup = assign_state (PStr ''disconnected'')"

subsection \<open>Subscriptions\<close>

definition add_subscription :: "string \<Rightarrow> handler \<Rightarrow> nat \<Rightarrow> action" where
  "add_subscription tpc h q =
     (\<lambda>(self, e).
        let self = self\<lparr>mqtt_subscription_handlers := (mqtt_subscription_handlers self)(tpc \<mapsto> h)\<rparr>
        in emit (Subscribe (mqtt_client self) tpc q) (self, e))"

definition remove_subscription :: "string \<Rightarrow> action" where
  "remove_subscription tpc =
     block
      [(\<lambda>(self, e). emit (Unsubscribe (mqtt_client self) tpc) (self, e)),
       (\<lambda>(self, e).
          case getitem (mqtt_subscription_handlers self) tpc of
            Inl err \<Rightarrow> raise err (self, e)
          | Inr _ \<Rightarrow>
              (None,
               self\<lparr>mqtt_subscription_handlers := (mqtt_subscription_handlers self)(tpc := None)\<rparr>,
               e))]"

definition subscribe_topics :: action where
  "subscribe_topics =
     block
      [(\<lambda>(self, e).
          add_subscription (join ''/'' [topic self, ''$broadcast/#'']) Broadcast_Handler 0 (self, e)),
       (\<lambda>(self, e).
          for_each (nodes self)
            (\<lambda>(_, node). for_each (get_subscriptions node) (\<lambda>(tpc, h). add_subscription tpc h 0))
            (self, e))]"




subsection \<open>Nodes\<close>

definition publish_nodes :: "bool \<Rightarrow> nat \<Rightarrow> action" where
  "publish_nodes retain q =
     block
      [(\<lambda>(self, e).
          publish (join ''/'' [topic self, ''$nodes'']) (PStr (join '','' (map fst (nodes self))))
            retain q (self, e)),
       (\<lambda>(self, e). (None, self\<lparr>nodes_published := True\<rparr>, e)),
       (\<lambda>(self, e).
          for_each (nodes self) (\<lambda>(_, node). emit (Node_Publish_Attributes (node_id node) retain q))
            (self, e))]"

definition add_node :: "node \<Rightarrow> action" where
  "add_node node =
     block
      [(\<lambda>(self, e). (None, self\<lparr>nodes := AList.update (node_id node) node (nodes self)\<rparr>, e)),
       (\<lambda>(self, e).
          if nodes_published self then publish_nodes (retained self) (qos self) (self, e)
          else skip (self, e))]"

definition get_node :: "string \<Rightarrow> device \<Rightarrow> node option" where
  "get_node nid self = map_of (nodes self) nid"

subsection \<open>Connection\<close>

definition mqtt_on_connection :: "bool \<Rightarrow> action" where
  "mqtt_on_connection conn =
     (\<lambda>(self, e).
        if conn then
          if \<not> priv_mqtt_connected self then
            block
             [(\<lambda>(self, e). (None, self\<lparr>priv_mqtt_connected := True\<rparr>, e)),
              publish_attributes True 1,
              publish_nodes True 1,
              subscribe_topics,
              (\<lambda>(self, e).
                 if \<not> using_shared_mqtt_client (clients e (mqtt_client self))
                    \<or> instance_number self = 1
                 then emit (Set_Will (mqtt_client self) (join ''/'' [topic self, ''$state''])
                              (PStr ''lost'') True 1) (self, e)
                 else skip (self, e))]
             (self, e)
          else skip (self, e)
        else (None, self\<lparr>priv_mqtt_connected := False\<rparr>, e))"

definition start :: action where
  "start =
     block
      [(\<lambda>(self, e). let (t, e) = time_time e in (None, self\<lparr>start_time := Some t\<rparr>, e)),
       (\<lambda>(self, e).
          if ''stats'' \<in> set (extensions self) then
            block
             [(\<lambda>(self, e).
                 if repeating_timer e = None then
                   subscript homie_settings ''update_interval''
                     (\<lambda>v (self, e). (None, self, e\<lparr>repeating_timer := Some v\<rparr>)) (self, e)
                 else skip (self, e)),
              (\<lambda>(self, e). emit (Timer_Add_Callback (instance_number self)) (self, e))]
             (self, e)
          else skip (self, e)),
       (\<lambda>(self, e).
          if mqtt_connected (clients e (mqtt_client self)) then mqtt_on_connection True (self, e)
          else skip (self, e))]"

subsection \<open>Construction\<close>

text \<open>
  Modelled from the spec: \<open>validate_id\<close> of \<open>homie.support.helpers\<close>, which this module
  imports and which is not part of it. The spec's identifier grammar: lowercase
  alphanumerics and hyphens, not starting and not ending with a hyphen; the empty
  identifier is invalid.
\<close>

definition id_characters :: string where
  "id_characters = ''abcdefghijklmnopqrstuvwxyz0123456789-''"

definition validate_id :: "string \<Rightarrow> bool" where
  "validate_id i =
     (i \<noteq> [] \<and> list_all (\<lambda>c. c \<in> set id_characters) i
      \<and> hd i \<noteq> CHR ''-'' \<and> last i \<noteq> CHR ''-'')"

text \<open>\<open>"device{:04d}".format(n)\<close>: the decimal digits of \<open>n\<close>, zero-padded to four.\<close>

definition digit :: "nat \<Rightarrow> char" where
  "digit d = ''0123456789'' ! d"

function decimal :: "nat \<Rightarrow> string" where
  "decimal n = (if n < 10 then [digit n] else decimal (n div 10) @ [digit (n mod 10)])"
  by pat_completeness auto
termination
  by (relation "measure (\<lambda>n. n)") auto

definition format_04d :: "nat \<Rightarrow> string" where
  "format_04d n = replicate (4 - length (decimal n)) CHR ''0'' @ decimal n"

definition generate_device_id :: "nat \<Rightarrow> string" where
  "generate_device_id n = ''device'' @ format_04d n"

text \<open>
  \<open>_homie_validate_settings\<close>: every key of \<open>HOMIE_SETTINGS\<close> that the given dict lacks is
  set to its default; \<open>None\<close> gives \<open>HOMIE_SETTINGS\<close> itself.
\<close>

definition homie_validate_settings :: "(string \<rightharpoonup> pyval) option \<Rightarrow> env \<Rightarrow> (string \<rightharpoonup> pyval)" where
  "homie_validate_settings settings e =
     (case settings of
        Some d \<Rightarrow>
          fold (\<lambda>(setting, val) d. if d setting = None then d(setting \<mapsto> val) else d)
            (HOMIE_SETTINGS e) d
      | None \<Rightarrow> map_of (HOMIE_SETTINGS e))"

text \<open>
  \<open>__init__\<close>. The arguments are \<open>device_id\<close> and \<open>name\<close> (\<open>None\<close> when missing),
  \<open>homie_settings\<close>, the client object that \<open>connect_mqtt_client(self, mqtt_settings)\<close>
  returns, and \<open>extensions\<close>. An \<open>assert\<close> that fails raises \<open>AssertionError\<close> and no
  object is returned; \<open>instance_count\<close> has been incremented by then. Joining the topic
  root with the device id raises \<open>TypeError\<close> when the root is not a string.
\<close>

definition init ::
  "string option \<Rightarrow> string option \<Rightarrow> (string \<rightharpoonup> pyval) option \<Rightarrow> nat \<Rightarrow> string list \<Rightarrow> env
     \<Rightarrow> (error + device) \<times> env" where
  "init device_id_arg name_arg settings client exts e =
     (let e = e\<lparr>instance_count := instance_count e + 1\<rparr>;
          n = instance_count e;
          did = (case device_id_arg of None \<Rightarrow> generate_device_id n | Some i \<Rightarrow> i)
      in if \<not> validate_id did then (Inl AssertionError, e)
         else case name_arg of
           None \<Rightarrow> (Inl AssertionError, e)
         | Some nm \<Rightarrow>
             if nm = [] then (Inl AssertionError, e)
             else if \<not> list_all (\<lambda>extension. extension \<in> set EXTENSIONS) exts
               then (Inl AssertionError, e)
             else
               let hs = homie_validate_settings settings e
               in (case getitem hs ''topic'' of
                    Inl err \<Rightarrow> (Inl err, e)
                  | Inr (PStr topic_root) \<Rightarrow>
                      (Inr \<lparr>instance_number = n,
                            priv_mqtt_connected = False,
                            device_id = did,
                            name = nm,
                            extensions = exts,
                            priv_state = PStr ''init'',
                            homie_settings = hs,
                            topic = join ''/'' [topic_root, did],
                            retained = True,
                            qos = 1,
                            nodes = [],
                            start_time = None,
                            nodes_published = False,
                            mqtt_client = client,
                            mqtt_subscription_handlers = Map.empty\<rparr>, e)
                  | Inr _ \<Rightarrow> (Inl TypeError, e)))"

section \<open>Callbacks from the transport\<close>

text \<open>
  The transport calls \<open>mqtt_on_connection\<close> on every connection signal. An exception
  leaves the callback towards the transport; the device and the environment keep what
  was done before it.
\<close>

fun run_on_connection :: "bool list \<Rightarrow> device \<times> env \<Rightarrow> device \<times> env" where
  "run_on_connection [] s = s"
| "run_on_connection (c # cs) s = run_on_connection cs (snd (mqtt_on_connection c s))"



section \<open>Reading the record of calls\<close>


fun is_client_call :: "event \<Rightarrow> bool" where
  "is_client_call (Publish _ _ _ _ _) = True"
| "is_client_call (Subscribe _ _ _) = True"
| "is_client_call (Unsubscribe _ _) = True"
| "is_client_call (Set_Will _ _ _ _ _) = True"
| "is_client_call _ = False"

fun is_publish_to :: "string \<Rightarrow> event \<Rightarrow> bool" where
  "is_publish_to tpc (Publish _ t _ _ _) = (t = tpc)"
| "is_publish_to tpc _ = False"


fun is_str :: "pyval \<Rightarrow> bool" where
  "is_str (PStr _) = True"
| "is_str _ = False"

text \<open>The calls recorded since the environment \<open>e\<close>.\<close>

definition calls_since :: "env \<Rightarrow> env \<Rightarrow> event list" where
  "calls_since e e' = drop (length (log e)) (log e')"

section \<open>What the constructor establishes\<close>

text \<open>
  A constructed device declares supported extensions only, and its settings hold every
  key of \<open>HOMIE_SETTINGS\<close>.
\<close>

definition constructed :: "device \<Rightarrow> bool" where
  "constructed self =
     (list_all (\<lambda>extension. extension \<in> set EXTENSIONS) (extensions self)
      \<and> list_all (\<lambda>k. homie_settings self k \<noteq> None)
           [''version'', ''topic'', ''fw_name'', ''fw_version'', ''update_interval'',
            ''implementation''])"

text \<open>\<open>start()\<close> has set the start time, or the statistics are not published at all.\<close>

definition uptime_defined :: "device \<Rightarrow> bool" where
  "uptime_defined self = (''stats'' \<notin> set (extensions self) \<or> start_time self \<noteq> None)"

section \<open>The calls the spec expects\<close>

definition keeps :: "(device \<Rightarrow> 'a) \<Rightarrow> action \<Rightarrow> bool" where
  "keeps fld f = (\<forall>s. fld (fst (snd (f s))) = fld (fst s))"

definition spec_stats_publishes :: "bool \<Rightarrow> nat \<Rightarrow> device \<Rightarrow> env \<Rightarrow> event list" where
  "spec_stats_publishes retain q self e =
     [Publish (mqtt_client self) (topic self @ ''/$stats/interval'')
        (the (homie_settings self ''update_interval'')) retain q,
      Publish (mqtt_client self) (topic self @ ''/$stats/uptime'')
        (PFloat (time_readings e (clock_reads e) - the (start_time self))) retain q,
      Publish (mqtt_client self) (topic self @ ''/$stats/lastupdate'')
        (PStr (strftime_readings e (Suc (clock_reads e)))) retain q]"

definition spec_firmware_publishes :: "bool \<Rightarrow> nat \<Rightarrow> device \<Rightarrow> env \<Rightarrow> event list" where
  "spec_firmware_publishes retain q self e =
     [Publish (mqtt_client self) (topic self @ ''/$localip'')
        (snd (mac_ip_address (clients e (mqtt_client self)))) retain q,
      Publish (mqtt_client self) (topic self @ ''/$mac'')
        (fst (mac_ip_address (clients e (mqtt_client self)))) retain q,
      Publish (mqtt_client self) (topic self @ ''/$fw/name'')
        (the (homie_settings self ''fw_name'')) retain q,
      Publish (mqtt_client self) (topic self @ ''/$fw/version'')
        (the (homie_settings self ''fw_version'')) retain q,
      Publish (mqtt_client self) (topic self @ ''/$implementation'')
        (the (homie_settings self ''implementation'')) retain q]"

definition spec_extension_publishes :: "bool \<Rightarrow> nat \<Rightarrow> device \<Rightarrow> env \<Rightarrow> event list" where
  "spec_extension_publishes retain q self e =
     (if extensions self = [] then []
      else [Publish (mqtt_client self) (topic self @ ''/$extensions'')
              (PStr (join '','' (extensions self))) retain q])
     @ (if ''stats'' \<in> set (extensions self) then spec_stats_publishes retain q self e else [])
     @ (if ''firmware'' \<in> set (extensions self) then spec_firmware_publishes retain q self e
        else [])"

definition spec_clock_reads :: "device \<Rightarrow> nat" where
  "spec_clock_reads self = (if ''stats'' \<in> set (extensions self) then 2 else 0)"

definition spec_attribute_publishes :: "bool \<Rightarrow> nat \<Rightarrow> device \<Rightarrow> env \<Rightarrow> event list" where
  "spec_attribute_publishes retain q self e =
     [Publish (mqtt_client self) (topic self @ ''/$homie'')
        (the (homie_settings self ''version'')) retain q,
      Publish (mqtt_client self) (topic self @ ''/$name'') (PStr (name self)) retain q,
      Publish (mqtt_client self) (topic self @ ''/$implementation'')
        (the (homie_settings self ''implementation'')) retain q]
     @ spec_extension_publishes retain q self e
     @ [Publish (mqtt_client self) (topic self @ ''/$state'') (PStr ''ready'') True 1]"

definition spec_node_publishes :: "bool \<Rightarrow> nat \<Rightarrow> device \<Rightarrow> event list" where
  "spec_node_publishes retain q self =
     Publish (mqtt_client self) (topic self @ ''/$nodes'')
       (PStr (join '','' (map fst (nodes self)))) retain q
     # map (\<lambda>x. Node_Publish_Attributes (node_id (snd x)) retain q) (nodes self)"

definition spec_subscriptions :: "device \<Rightarrow> (string \<times> handler) list" where
  "spec_subscriptions self =
     (topic self @ ''/$broadcast/#'', Broadcast_Handler)
     # concat (map (\<lambda>x. get_subscriptions (snd x)) (nodes self))"

definition spec_subscribe_calls :: "device \<Rightarrow> event list" where
  "spec_subscribe_calls self =
     map (\<lambda>x. Subscribe (mqtt_client self) (fst x) 0) (spec_subscriptions self)"

definition store_handler :: "string \<times> handler \<Rightarrow> (string \<rightharpoonup> handler) \<Rightarrow> (string \<rightharpoonup> handler)" where
  "store_handler x m = m(fst x \<mapsto> snd x)"

definition spec_handlers :: "device \<Rightarrow> (string \<rightharpoonup> handler)" where
  "spec_handlers self =
     fold store_handler (spec_subscriptions self) (mqtt_subscription_handlers self)"

definition spec_last_will :: "device \<Rightarrow> env \<Rightarrow> event list" where
  "spec_last_will self e =
     (if \<not> using_shared_mqtt_client (clients e (mqtt_client self)) \<or> instance_number self = 1
      then [Set_Will (mqtt_client self) (topic self @ ''/$state'') (PStr ''lost'') True 1]
      else [])"

definition spec_connect_calls :: "device \<Rightarrow> env \<Rightarrow> event list" where
  "spec_connect_calls self e =
     spec_attribute_publishes True 1 self e @ spec_node_publishes True 1 self
     @ spec_subscribe_calls self @ spec_last_will self e"

text \<open>
  A call with its payload blanked when it is one of the two publishes whose payload is
  read from the clock, \<open>$stats/uptime\<close> and \<open>$stats/lastupdate\<close> of the device topic.
\<close>

fun without_clock_payload :: "string \<Rightarrow> event \<Rightarrow> event" where
  "without_clock_payload tp (Publish c t payload r q) =
     (if t = tp @ ''/$stats/uptime'' \<or> t = tp @ ''/$stats/lastupdate''
      then Publish c t PNone r q else Publish c t payload r q)"
| "without_clock_payload tp ev = ev"

text \<open>
  The \<open>topic\<close> entry of the settings argument, when there is one, is a string (the root of
  the topic namespace).
\<close>

definition topic_setting_is_str :: "(string \<rightharpoonup> pyval) option \<Rightarrow> bool" where
  "topic_setting_is_str settings =
     (case settings of
        None \<Rightarrow> True
      | Some d \<Rightarrow> (case d ''topic'' of None \<Rightarrow> True | Some v \<Rightarrow> is_str v))"

definition uppercase :: string where
  "uppercase = ''ABCDEFGHIJKLMNOPQRSTUVWXYZ''"

section \<open>A device and an environment to evaluate on\<close>

text \<open>
  A process that has created no device yet; every client reference denotes a shared
  client. The clock gives \<open>1000, 1001, ...\<close> seconds.
\<close>

definition fresh_env :: env where
  "fresh_env =
     \<lparr>instance_count = 0, repeating_timer = None, homie_version = ''0.3.0'',
      sys_platform = ''linux'',
      clients = (\<lambda>_. \<lparr>mqtt_connected = False, using_shared_mqtt_client = True,
                        mac_ip_address = (PStr ''b8:27:eb:00:00:01'', PStr ''192.168.1.10'')\<rparr>),
      time_readings = (\<lambda>n. 1000 + real n),
      strftime_readings = (\<lambda>n. ''01/01/2020 00:16:4'' @ [digit n]),
      clock_reads = 0, log = []\<rparr>"

text \<open>
  The device of the spec's scenario: id \<open>kitchen-sensor\<close>, extensions \<open>["stats"]\<close>,
  interval 30, as the constructor leaves it (see \<open>init_kitchen_sensor\<close> below).
\<close>

definition kitchen_settings :: "string \<rightharpoonup> pyval" where
  "kitchen_settings =
     [''update_interval'' \<mapsto> PInt 30, ''version'' \<mapsto> PStr ''4.0.0'',
      ''topic'' \<mapsto> PStr ''homie'', ''fw_name'' \<mapsto> PStr ''homie4'',
      ''fw_version'' \<mapsto> PStr ''0.3.0'', ''implementation'' \<mapsto> PStr ''linux'']"

definition kitchen_sensor :: device where
  "kitchen_sensor =
     \<lparr>instance_number = 1, priv_mqtt_connected = False, device_id = ''kitchen-sensor'',
      name = ''Kitchen'', extensions = [''stats''], priv_state = PStr ''init'',
      homie_settings = kitchen_settings, topic = ''homie/kitchen-sensor'', retained = True,
      qos = 1, nodes = [], start_time = None, nodes_published = False, mqtt_client = 0,
      mqtt_subscription_handlers = Map.empty\<rparr>"

text \<open>The same device after \<open>start()\<close> at time 1000.\<close>

definition started_sensor :: device where
  "started_sensor = kitchen_sensor\<lparr>start_time := Some 1000\<rparr>"

text \<open>A second device on the same client, without extensions.\<close>

definition hall_lamp :: device where
  "hall_lamp =
     \<lparr>instance_number = 2, priv_mqtt_connected = False, device_id = ''hall-lamp'',
      name = ''Hall'', extensions = [], priv_state = PStr ''init'',
      homie_settings = kitchen_settings, topic = ''homie/hall-lamp'', retained = True,
      qos = 1, nodes = [], start_time = None, nodes_published = False, mqtt_client = 0,
      mqtt_subscription_handlers = Map.empty\<rparr>"

text \<open>The started device with the default extensions \<open>['stats','firmware','meta']\<close>.\<close>

definition full_sensor :: device where
  "full_sensor = started_sensor\<lparr>extensions := [''stats'', ''firmware'', ''meta'']\<rparr>"

text \<open>\<open>publish_attributes()\<close> called twice in a row on the started device.\<close>

definition first_call :: "error option \<times> device \<times> env" where
  "first_call = publish_attributes True 1 (started_sensor, fresh_env)"

definition second_call :: "error option \<times> device \<times> env" where
  "second_call = publish_attributes True 1 (snd first_call)"

section \<open>What each method does\<close>

lemma seq_emit [simp]:
  "seq (emit ev) g (self, e) = g (self, e\<lparr>log := log e @ [ev]\<rparr>)"
  by (simp add: seq_def emit_def)

lemma publish_apply:
  "publish tpc payload retain q (self, e) =
     (None, self, e\<lparr>log := log e @ [Publish (mqtt_client self) tpc payload retain q]\<rparr>)"
  by (simp add: publish_def emit_def)

lemma seq_None: "f s = (None, s') \<Longrightarrow> seq f g s = g s'"
  by (simp add: seq_def)

lemma seq_Some: "f s = (Some err, s') \<Longrightarrow> seq f g s = (Some err, s')"
  by (simp add: seq_def)

lemma subscript_Some:
  "d self k = Some v \<Longrightarrow> subscript d k body (self, e) = body v (self, e)"
  by (simp add: subscript_def getitem_def)

lemma subscript_None:
  "d self k = None \<Longrightarrow> subscript d k body (self, e) = (Some (KeyError k), self, e)"
  by (simp add: subscript_def getitem_def raise_def)

lemma publish_statastics_started:
  assumes "homie_settings self ''update_interval'' = Some iv" and "start_time self = Some t0"
  shows "publish_statastics retain q (self, e) =
     (None, self,
      e\<lparr>clock_reads := Suc (Suc (clock_reads e)),
        log := log e @
          [Publish (mqtt_client self) (topic self @ ''/$stats/interval'') iv retain q,
           Publish (mqtt_client self) (topic self @ ''/$stats/uptime'')
             (PFloat (time_readings e (clock_reads e) - t0)) retain q,
           Publish (mqtt_client self) (topic self @ ''/$stats/lastupdate'')
             (PStr (strftime_readings e (Suc (clock_reads e)))) retain q]\<rparr>)"
  using assms
  by (simp add: publish_statastics_def seq_def subscript_Some publish_apply uptime_def
      lastupdate_def time_time_def datetime_now_strftime_def skip_def)

lemma publish_statastics_unstarted:
  assumes "homie_settings self ''update_interval'' = Some iv" and "start_time self = None"
  shows "publish_statastics retain q (self, e) =
     (Some TypeError, self,
      e\<lparr>clock_reads := Suc (clock_reads e),
        log := log e @
          [Publish (mqtt_client self) (topic self @ ''/$stats/interval'') iv retain q]\<rparr>)"
  using assms
  by (simp add: publish_statastics_def seq_def subscript_Some publish_apply uptime_def
      lastupdate_def time_time_def datetime_now_strftime_def skip_def raise_def)

lemma publish_firmware_ok:
  assumes "homie_settings self ''fw_name'' = Some fn"
    and "homie_settings self ''fw_version'' = Some fv"
    and "homie_settings self ''implementation'' = Some im"
  shows "publish_firmware retain q (self, e) =
     (None, self,
      e\<lparr>log := log e @
          [Publish (mqtt_client self) (topic self @ ''/$localip'')
             (snd (mac_ip_address (clients e (mqtt_client self)))) retain q,
           Publish (mqtt_client self) (topic self @ ''/$mac'')
             (fst (mac_ip_address (clients e (mqtt_client self)))) retain q,
           Publish (mqtt_client self) (topic self @ ''/$fw/name'') fn retain q,
           Publish (mqtt_client self) (topic self @ ''/$fw/version'') fv retain q,
           Publish (mqtt_client self) (topic self @ ''/$implementation'') im retain q]\<rparr>)"
  using assms
  by (simp add: publish_firmware_def seq_def subscript_Some publish_apply skip_def
      split: prod.splits)

lemma join_empty_iff:
  "list_all (\<lambda>x. x \<noteq> []) xs \<Longrightarrow> join sep xs = [] \<longleftrightarrow> xs = []"
  by (cases "(sep, xs)" rule: join.cases) auto

lemma constructed_extensions_nonempty:
  "constructed self \<Longrightarrow> list_all (\<lambda>x. x \<noteq> []) (extensions self)"
  by (auto simp: constructed_def EXTENSIONS_def list_all_iff)

lemma constructed_settings:
  assumes "constructed self"
  shows "\<exists>v. homie_settings self ''version'' = Some v"
    and "\<exists>v. homie_settings self ''fw_name'' = Some v"
    and "\<exists>v. homie_settings self ''fw_version'' = Some v"
    and "\<exists>v. homie_settings self ''update_interval'' = Some v"
    and "\<exists>v. homie_settings self ''implementation'' = Some v"
  using assms by (auto simp: constructed_def)

lemma publish_extensions_ok:
  assumes c: "constructed self" and u: "uptime_defined self"
  shows "publish_extensions retain q (self, e) =
     (None, self,
      e\<lparr>clock_reads := clock_reads e + spec_clock_reads self,
        log := log e @ spec_extension_publishes retain q self e\<rparr>)"
proof -
  obtain iv fn fv im where s:
    "homie_settings self ''update_interval'' = Some iv"
    "homie_settings self ''fw_name'' = Some fn"
    "homie_settings self ''fw_version'' = Some fv"
    "homie_settings self ''implementation'' = Some im"
    using constructed_settings [OF c] by blast
  have j: "join '','' (extensions self) = [] \<longleftrightarrow> extensions self = []"
    using constructed_extensions_nonempty [OF c] by (rule join_empty_iff)
  show ?thesis
  proof (cases "''stats'' \<in> set (extensions self)")
    case True
    then obtain t0 where t: "start_time self = Some t0"
      using u by (auto simp: uptime_defined_def)
    from True have ne: "extensions self \<noteq> []" by auto
    show ?thesis
      using True ne j s t
      by (simp add: publish_extensions_def Let_def seq_def publish_apply skip_def
          publish_statastics_started [OF s(1) t] publish_firmware_ok [OF s(2) s(3) s(4)]
          spec_extension_publishes_def spec_stats_publishes_def spec_firmware_publishes_def
          spec_clock_reads_def)
  next
    case False
    show ?thesis
      using False j s
      by (simp add: publish_extensions_def Let_def seq_def publish_apply skip_def
          publish_firmware_ok [OF s(2) s(3) s(4)]
          spec_extension_publishes_def spec_firmware_publishes_def spec_clock_reads_def)
  qed
qed

lemma ready_valid: "PStr ''ready'' \<in> set DEVICE_STATES"
  by (simp add: DEVICE_STATES_def)

lemma assign_state_ready:
  "assign_state (PStr ''ready'') (self, e) =
     (None, self\<lparr>priv_state := PStr ''ready''\<rparr>,
      e\<lparr>log := log e @
         [Publish (mqtt_client self) (topic self @ ''/$state'') (PStr ''ready'') True 1]\<rparr>)"
  using ready_valid by (simp add: assign_state_def state_setter_def publish_apply)

lemma publish_attributes_ok:
  assumes c: "constructed self" and u: "uptime_defined self"
  shows "publish_attributes retain q (self, e) =
     (None, self\<lparr>priv_state := PStr ''ready''\<rparr>,
      e\<lparr>clock_reads := clock_reads e + spec_clock_reads self,
        log := log e @ spec_attribute_publishes retain q self e\<rparr>)"
proof -
  obtain ve im where s:
    "homie_settings self ''version'' = Some ve"
    "homie_settings self ''implementation'' = Some im"
    using constructed_settings [OF c] by blast
  have frame: "spec_extension_publishes retain q self (e\<lparr>log := l\<rparr>)
      = spec_extension_publishes retain q self e" for l
    by (simp add: spec_extension_publishes_def spec_stats_publishes_def
        spec_firmware_publishes_def)
  show ?thesis
    using s
    by (simp add: publish_attributes_def seq_def subscript_Some publish_apply skip_def
        publish_extensions_ok [OF c u] assign_state_ready spec_attribute_publishes_def frame)
qed

lemma for_each_Nil [simp]: "for_each [] body s = (None, s)"
  by (simp add: for_each_def skip_def)

lemma for_each_Cons: "for_each (x # xs) body = seq (body x) (for_each xs body)"
  by (simp add: for_each_def)

lemma for_each_emit:
  "for_each xs (\<lambda>x. emit (g x)) (self, e) = (None, self, e\<lparr>log := log e @ map g xs\<rparr>)"
  by (induction xs arbitrary: e) (simp_all add: for_each_Cons)

lemma publish_nodes_apply:
  "publish_nodes retain q (self, e) =
     (None, self\<lparr>nodes_published := True\<rparr>,
      e\<lparr>log := log e @ spec_node_publishes retain q self\<rparr>)"
  by (simp add: publish_nodes_def seq_def publish_apply skip_def case_prod_unfold
      for_each_emit spec_node_publishes_def)

lemma add_subscription_apply:
  "add_subscription tpc h q (self, e) =
     (None, self\<lparr>mqtt_subscription_handlers := (mqtt_subscription_handlers self)(tpc \<mapsto> h)\<rparr>,
      e\<lparr>log := log e @ [Subscribe (mqtt_client self) tpc q]\<rparr>)"
  by (simp add: add_subscription_def emit_def)

lemma for_each_add_subscription:
  "for_each subs (\<lambda>x. add_subscription (fst x) (snd x) 0) (self, e) =
     (None,
      self\<lparr>mqtt_subscription_handlers :=
             fold store_handler subs (mqtt_subscription_handlers self)\<rparr>,
      e\<lparr>log := log e @ map (\<lambda>x. Subscribe (mqtt_client self) (fst x) 0) subs\<rparr>)"
proof (induction subs arbitrary: self e)
  case Nil
  show ?case by simp
next
  case (Cons x subs)
  show ?case
    by (simp add: for_each_Cons seq_def add_subscription_apply Cons.IH store_handler_def)
qed

lemma for_each_nodes_subscriptions:
  "for_each ns (\<lambda>n. for_each (get_subscriptions (snd n))
                      (\<lambda>x. add_subscription (fst x) (snd x) 0)) (self, e) =
     (None,
      self\<lparr>mqtt_subscription_handlers :=
             fold store_handler (concat (map (\<lambda>n. get_subscriptions (snd n)) ns))
               (mqtt_subscription_handlers self)\<rparr>,
      e\<lparr>log := log e @ map (\<lambda>x. Subscribe (mqtt_client self) (fst x) 0)
                          (concat (map (\<lambda>n. get_subscriptions (snd n)) ns))\<rparr>)"
proof (induction ns arbitrary: self e)
  case Nil
  show ?case by simp
next
  case (Cons n ns)
  show ?case
    by (simp add: for_each_Cons seq_def for_each_add_subscription Cons.IH)
qed

lemma subscribe_topics_apply:
  "subscribe_topics (self, e) =
     (None, self\<lparr>mqtt_subscription_handlers := spec_handlers self\<rparr>,
      e\<lparr>log := log e @ spec_subscribe_calls self\<rparr>)"
  by (simp add: subscribe_topics_def seq_def add_subscription_apply skip_def case_prod_unfold
      for_each_nodes_subscriptions spec_handlers_def spec_subscribe_calls_def
      spec_subscriptions_def store_handler_def)

lemma mqtt_on_connection_connected:
  "priv_mqtt_connected self \<Longrightarrow> mqtt_on_connection True (self, e) = (None, self, e)"
  by (simp add: mqtt_on_connection_def skip_def)

lemma mqtt_on_connection_False:
  "mqtt_on_connection False (self, e) = (None, self\<lparr>priv_mqtt_connected := False\<rparr>, e)"
  by (simp add: mqtt_on_connection_def)

lemma mqtt_on_connection_edge:
  assumes c: "constructed self" and u: "uptime_defined self"
    and d: "\<not> priv_mqtt_connected self"
  shows "mqtt_on_connection True (self, e) =
     (None,
      self\<lparr>priv_mqtt_connected := True, priv_state := PStr ''ready'', nodes_published := True,
           mqtt_subscription_handlers := spec_handlers self\<rparr>,
      e\<lparr>clock_reads := clock_reads e + spec_clock_reads self,
        log := log e @ spec_connect_calls self e\<rparr>)"
proof -
  have c': "constructed (self\<lparr>priv_mqtt_connected := True\<rparr>)"
    using c by (simp add: constructed_def)
  have u': "uptime_defined (self\<lparr>priv_mqtt_connected := True\<rparr>)"
    using u by (simp add: uptime_defined_def)
  show ?thesis
    using d
    by (simp add: mqtt_on_connection_def seq_def skip_def emit_def
        publish_attributes_ok [OF c' u'] publish_nodes_apply subscribe_topics_apply
        spec_connect_calls_def spec_last_will_def spec_attribute_publishes_def
        spec_extension_publishes_def spec_stats_publishes_def spec_firmware_publishes_def
        spec_node_publishes_def spec_subscribe_calls_def spec_subscriptions_def
        spec_handlers_def spec_clock_reads_def)
qed

lemma publish_extensions_unstarted:
  assumes c: "constructed self" and st: "''stats'' \<in> set (extensions self)"
    and n: "start_time self = None"
  shows "publish_extensions retain q (self, e) =
     (Some TypeError, self,
      e\<lparr>clock_reads := Suc (clock_reads e),
        log := log e @
          [Publish (mqtt_client self) (topic self @ ''/$extensions'')
             (PStr (join '','' (extensions self))) retain q,
           Publish (mqtt_client self) (topic self @ ''/$stats/interval'')
             (the (homie_settings self ''update_interval'')) retain q]\<rparr>)"
proof -
  obtain iv where s: "homie_settings self ''update_interval'' = Some iv"
    using constructed_settings [OF c] by blast
  have j: "join '','' (extensions self) = [] \<longleftrightarrow> extensions self = []"
    using constructed_extensions_nonempty [OF c] by (rule join_empty_iff)
  from st have ne: "extensions self \<noteq> []" by auto
  show ?thesis
    using st ne j s
    by (simp add: publish_extensions_def Let_def seq_def publish_apply skip_def
        publish_statastics_unstarted [OF s n])
qed

lemma publish_attributes_unstarted:
  assumes c: "constructed self" and st: "''stats'' \<in> set (extensions self)"
    and n: "start_time self = None"
  shows "publish_attributes retain q (self, e) =
     (Some TypeError, self,
      e\<lparr>clock_reads := Suc (clock_reads e),
        log := log e @
          [Publish (mqtt_client self) (topic self @ ''/$homie'')
             (the (homie_settings self ''version'')) retain q,
           Publish (mqtt_client self) (topic self @ ''/$name'') (PStr (name self)) retain q,
           Publish (mqtt_client self) (topic self @ ''/$implementation'')
             (the (homie_settings self ''implementation'')) retain q,
           Publish (mqtt_client self) (topic self @ ''/$extensions'')
             (PStr (join '','' (extensions self))) retain q,
           Publish (mqtt_client self) (topic self @ ''/$stats/interval'')
             (the (homie_settings self ''update_interval'')) retain q]\<rparr>)"
proof -
  obtain ve im where s:
    "homie_settings self ''version'' = Some ve"
    "homie_settings self ''implementation'' = Some im"
    using constructed_settings [OF c] by blast
  show ?thesis
    using s
    by (simp add: publish_attributes_def seq_def subscript_Some publish_apply skip_def
        publish_extensions_unstarted [OF c st n])
qed

lemma calls_since_append [simp]:
  "calls_since e (e'\<lparr>log := log e @ xs\<rparr>) = xs"
  by (simp add: calls_since_def)

lemma calls_since_append_clock [simp]:
  "calls_since e (e\<lparr>clock_reads := n, log := log e @ xs\<rparr>) = xs"
  by (simp add: calls_since_def)

subsection \<open>What the on-connect sequence keeps\<close>

lemma keeps_seq: "keeps fld f \<Longrightarrow> keeps fld g \<Longrightarrow> keeps fld (seq f g)"
  by (auto simp: keeps_def seq_def split: prod.splits option.splits) (metis fst_conv snd_conv)+

lemma keeps_skip: "keeps fld skip"
  by (simp add: keeps_def skip_def)

lemma keeps_block: "list_all (keeps fld) fs \<Longrightarrow> keeps fld (block fs)"
  by (induction fs) (simp_all add: keeps_seq keeps_skip)

lemma keeps_subscript: "(\<And>v. keeps fld (body v)) \<Longrightarrow> keeps fld (subscript d k body)"
  by (auto simp: keeps_def subscript_def raise_def split: sum.splits)

lemma keeps_uptime: "(\<And>v. keeps fld (body v)) \<Longrightarrow> keeps fld (uptime body)"
  by (auto simp: keeps_def uptime_def raise_def time_time_def split: option.splits)

lemma keeps_lastupdate: "(\<And>v. keeps fld (body v)) \<Longrightarrow> keeps fld (lastupdate body)"
  by (auto simp: keeps_def lastupdate_def datetime_now_strftime_def)

lemma keeps_publish: "keeps fld (\<lambda>(self, e). publish (t self) (v self) r q (self, e))"
  by (simp add: keeps_def publish_apply case_prod_unfold)

lemma keeps_publish_const: "keeps fld (\<lambda>(self, e). publish (t self) v r q (self, e))"
  by (simp add: keeps_def publish_apply case_prod_unfold)

lemma keeps_publish_statastics: "keeps fld (publish_statastics retain q)"
  unfolding publish_statastics_def
  by (rule keeps_block)
     (simp add: keeps_subscript keeps_uptime keeps_lastupdate keeps_publish_const)


lemma keepsD: "keeps fld f \<Longrightarrow> fld (fst (snd (f s))) = fld (fst s)"
  unfolding keeps_def by blast

lemma keeps_publish_firmware: "keeps fld (publish_firmware retain q)"
proof -
  have "keeps fld (block
            [(\<lambda>(self, e). publish (join ''/'' [topic self, ''$localip'']) ip retain q (self, e)),
             (\<lambda>(self, e). publish (join ''/'' [topic self, ''$mac'']) mac retain q (self, e)),
             subscript homie_settings ''fw_name''
               (\<lambda>v (self, e). publish (join ''/'' [topic self, ''$fw/name'']) v retain q (self, e)),
             subscript homie_settings ''fw_version''
               (\<lambda>v (self, e). publish (join ''/'' [topic self, ''$fw/version'']) v retain q (self, e)),
             subscript homie_settings ''implementation''
               (\<lambda>v (self, e).
                  publish (join ''/'' [topic self, ''$implementation'']) v retain q (self, e))])"
    for mac ip
    by (rule keeps_block) (simp add: keeps_subscript keeps_publish_const)
  note body = this
  show ?thesis
    unfolding keeps_def
  proof
    fix s :: "device \<times> env"
    obtain self e where s: "s = (self, e)" by (cases s)
    obtain mac ip where m: "mac_ip_address (clients e (mqtt_client self)) = (mac, ip)"
      by (cases "mac_ip_address (clients e (mqtt_client self))")
    show "fld (fst (snd (publish_firmware retain q s))) = fld (fst s)"
      using keepsD [OF body [of ip mac], of s] by (simp add: publish_firmware_def s m)
  qed
qed

lemma keeps_publish_extensions: "keeps fld (publish_extensions retain q)"
proof -
  have "keeps fld (block
            [(\<lambda>(self, e).
                if exts \<noteq> [] then
                  publish (join ''/'' [topic self, ''$extensions'']) (PStr exts) retain q (self, e)
                else skip (self, e)),
             (\<lambda>(self, e).
                if ''stats'' \<in> set (extensions self) then publish_statastics retain q (self, e)
                else skip (self, e)),
             (\<lambda>(self, e).
                if ''firmware'' \<in> set (extensions self) then publish_firmware retain q (self, e)
                else skip (self, e))])" for exts
    by (rule keeps_block)
       (simp add: keeps_def case_prod_unfold publish_apply skip_def
          keepsD [OF keeps_publish_statastics] keepsD [OF keeps_publish_firmware])
  note body = this
  show ?thesis
    unfolding keeps_def
  proof
    fix s :: "device \<times> env"
    obtain self e where s: "s = (self, e)" by (cases s)
    show "fld (fst (snd (publish_extensions retain q s))) = fld (fst s)"
      using keepsD [OF body [of "join '','' (extensions self)"], of s]
      by (simp add: publish_extensions_def s Let_def)
  qed
qed

lemma keeps_assign_state_flag: "keeps priv_mqtt_connected (assign_state v)"
  by (simp add: keeps_def assign_state_def state_setter_def publish_apply emit_def)

lemma keeps_publish_attributes_flag: "keeps priv_mqtt_connected (publish_attributes retain q)"
  unfolding publish_attributes_def
  by (rule keeps_block)
     (simp add: keeps_subscript keeps_publish_const keeps_publish keeps_publish_extensions
        keeps_assign_state_flag)

lemma keeps_connect_sequence_flag:
  "keeps priv_mqtt_connected
     (block
       [publish_attributes True 1, publish_nodes True 1, subscribe_topics,
        (\<lambda>(self, e).
           if \<not> using_shared_mqtt_client (clients e (mqtt_client self))
              \<or> instance_number self = 1
           then emit (Set_Will (mqtt_client self) (join ''/'' [topic self, ''$state''])
                        (PStr ''lost'') True 1) (self, e)
           else skip (self, e))])"
  by (rule keeps_block)
     (simp add: keeps_publish_attributes_flag,
      simp add: keeps_def publish_nodes_apply subscribe_topics_apply emit_def skip_def)

lemma mqtt_on_connection_True_flag:
  "priv_mqtt_connected (fst (snd (mqtt_on_connection True (self, e))))"
proof (cases "priv_mqtt_connected self")
  case True
  then show ?thesis by (simp add: mqtt_on_connection_connected)
next
  case False
  then show ?thesis
    using keepsD [OF keeps_connect_sequence_flag, of "(self\<lparr>priv_mqtt_connected := True\<rparr>, e)"]
    by (simp add: mqtt_on_connection_def seq_def)
qed

lemma run_on_connection_connected:
  "priv_mqtt_connected (fst s) \<Longrightarrow> run_on_connection (replicate n True) s = s"
proof (induction n)
  case 0
  show ?case by simp
next
  case (Suc n)
  obtain self e where s: "s = (self, e)" by (cases s)
  with Suc.prems have "mqtt_on_connection True s = (None, s)"
    by (simp add: mqtt_on_connection_connected)
  with Suc show ?case by simp
qed

subsection \<open>The example device\<close>

lemma started_sensor_ok:
  "constructed started_sensor \<and> uptime_defined started_sensor
   \<and> \<not> priv_mqtt_connected started_sensor"
  by (simp add: constructed_def uptime_defined_def started_sensor_def kitchen_sensor_def
      kitchen_settings_def EXTENSIONS_def)

lemma validate_kitchen: "validate_id ''kitchen-sensor''"
  by (simp add: validate_id_def id_characters_def)

lemma kitchen_settings_validated:
  "homie_version e = ''0.3.0'' \<Longrightarrow> sys_platform e = ''linux'' \<Longrightarrow>
   homie_validate_settings (Some [''update_interval'' \<mapsto> PInt 30]) e = kitchen_settings"
  by (rule ext)
     (simp add: homie_validate_settings_def HOMIE_SETTINGS_def kitchen_settings_def)

lemma init_kitchen_sensor:
  "init (Some ''kitchen-sensor'') (Some ''Kitchen'') (Some [''update_interval'' \<mapsto> PInt 30]) 0
     [''stats''] fresh_env
   = (Inr kitchen_sensor, fresh_env\<lparr>instance_count := 1\<rparr>)"
proof -
  have t: "getitem kitchen_settings ''topic'' = Inr (PStr ''homie'')"
    by (simp add: getitem_def kitchen_settings_def)
  show ?thesis
    by (simp add: init_def Let_def validate_kitchen EXTENSIONS_def kitchen_settings_validated t
        kitchen_sensor_def fresh_env_def)
qed

lemma kitchen_sensor_constructed: "constructed kitchen_sensor"
  by (simp add: constructed_def kitchen_sensor_def kitchen_settings_def EXTENSIONS_def)

lemma hall_lamp_ok:
  "constructed hall_lamp \<and> uptime_defined hall_lamp \<and> \<not> priv_mqtt_connected hall_lamp"
  by (simp add: constructed_def uptime_defined_def hall_lamp_def kitchen_settings_def)

section \<open>The connect handler\<close>

text \<open>
  Claim C1. The on-connect sequence runs at most once per connect edge. After one call
  \<open>mqtt_on_connection(True)\<close>, any number of further calls with \<open>True\<close> change nothing:
  no publish, subscribe or last-will call is made (the device and the environment stay
  as the first call left them, also when that call raised). \<open>mqtt_on_connection(False)\<close>
  clears the guard flag and does nothing else. When the sequence runs (flag clear, on
  a constructed device whose uptime is defined) it makes, in this order, the calls of
  \<open>publish_attributes\<close>, of \<open>publish_nodes\<close>, of \<open>subscribe_topics\<close>, and the conditional
  last-will registration.
\<close>

theorem on_connect_once_per_edge:
  "run_on_connection (replicate n True) (snd (mqtt_on_connection True (self, e)))
     = snd (mqtt_on_connection True (self, e))
   \<and> mqtt_on_connection False (self, e) = (None, self\<lparr>priv_mqtt_connected := False\<rparr>, e)
   \<and> (constructed self \<and> uptime_defined self \<and> \<not> priv_mqtt_connected self \<longrightarrow>
        mqtt_on_connection True (self, e) =
          (None,
           self\<lparr>priv_mqtt_connected := True, priv_state := PStr ''ready'',
                nodes_published := True, mqtt_subscription_handlers := spec_handlers self\<rparr>,
           e\<lparr>clock_reads := clock_reads e + spec_clock_reads self,
             log := log e @ spec_attribute_publishes True 1 self e
                    @ spec_node_publishes True 1 self @ spec_subscribe_calls self
                    @ spec_last_will self e\<rparr>))"
proof (intro conjI impI)
  show "run_on_connection (replicate n True) (snd (mqtt_on_connection True (self, e)))
     = snd (mqtt_on_connection True (self, e))"
    by (rule run_on_connection_connected) (rule mqtt_on_connection_True_flag)
  show "mqtt_on_connection False (self, e) = (None, self\<lparr>priv_mqtt_connected := False\<rparr>, e)"
    by (rule mqtt_on_connection_False)
next
  assume "constructed self \<and> uptime_defined self \<and> \<not> priv_mqtt_connected self"
  then show "mqtt_on_connection True (self, e) =
          (None,
           self\<lparr>priv_mqtt_connected := True, priv_state := PStr ''ready'',
                nodes_published := True, mqtt_subscription_handlers := spec_handlers self\<rparr>,
           e\<lparr>clock_reads := clock_reads e + spec_clock_reads self,
             log := log e @ spec_attribute_publishes True 1 self e
                    @ spec_node_publishes True 1 self @ spec_subscribe_calls self
                    @ spec_last_will self e\<rparr>)"
    by (simp add: mqtt_on_connection_edge spec_connect_calls_def)
qed

theorem on_connect_once_per_edge_witness:
  "constructed started_sensor \<and> uptime_defined started_sensor
   \<and> \<not> priv_mqtt_connected started_sensor
   \<and> mqtt_on_connection True (started_sensor, fresh_env) =
       (None,
        started_sensor\<lparr>priv_mqtt_connected := True, priv_state := PStr ''ready'',
             nodes_published := True,
             mqtt_subscription_handlers :=
               [''homie/kitchen-sensor/$broadcast/#'' \<mapsto> Broadcast_Handler]\<rparr>,
        fresh_env\<lparr>clock_reads := 2,
          log := [Publish 0 ''homie/kitchen-sensor/$homie'' (PStr ''4.0.0'') True 1,
                  Publish 0 ''homie/kitchen-sensor/$name'' (PStr ''Kitchen'') True 1,
                  Publish 0 ''homie/kitchen-sensor/$implementation'' (PStr ''linux'') True 1,
                  Publish 0 ''homie/kitchen-sensor/$extensions'' (PStr ''stats'') True 1,
                  Publish 0 ''homie/kitchen-sensor/$stats/interval'' (PInt 30) True 1,
                  Publish 0 ''homie/kitchen-sensor/$stats/uptime'' (PFloat 0) True 1,
                  Publish 0 ''homie/kitchen-sensor/$stats/lastupdate''
                    (PStr ''01/01/2020 00:16:41'') True 1,
                  Publish 0 ''homie/kitchen-sensor/$state'' (PStr ''ready'') True 1,
                  Publish 0 ''homie/kitchen-sensor/$nodes'' (PStr []) True 1,
                  Subscribe 0 ''homie/kitchen-sensor/$broadcast/#'' 0,
                  Set_Will 0 ''homie/kitchen-sensor/$state'' (PStr ''lost'') True 1]\<rparr>)
   \<and> run_on_connection [True, True] (snd (mqtt_on_connection True (started_sensor, fresh_env)))
       = snd (mqtt_on_connection True (started_sensor, fresh_env))
   \<and> mqtt_on_connection False (started_sensor, fresh_env) =
       (None, started_sensor\<lparr>priv_mqtt_connected := False\<rparr>, fresh_env)"
proof -
  note inst = on_connect_once_per_edge [of 2 started_sensor fresh_env]
  have edge: "mqtt_on_connection True (started_sensor, fresh_env) =
       (None,
        started_sensor\<lparr>priv_mqtt_connected := True, priv_state := PStr ''ready'',
             nodes_published := True,
             mqtt_subscription_handlers :=
               [''homie/kitchen-sensor/$broadcast/#'' \<mapsto> Broadcast_Handler]\<rparr>,
        fresh_env\<lparr>clock_reads := 2,
          log := [Publish 0 ''homie/kitchen-sensor/$homie'' (PStr ''4.0.0'') True 1,
                  Publish 0 ''homie/kitchen-sensor/$name'' (PStr ''Kitchen'') True 1,
                  Publish 0 ''homie/kitchen-sensor/$implementation'' (PStr ''linux'') True 1,
                  Publish 0 ''homie/kitchen-sensor/$extensions'' (PStr ''stats'') True 1,
                  Publish 0 ''homie/kitchen-sensor/$stats/interval'' (PInt 30) True 1,
                  Publish 0 ''homie/kitchen-sensor/$stats/uptime'' (PFloat 0) True 1,
                  Publish 0 ''homie/kitchen-sensor/$stats/lastupdate''
                    (PStr ''01/01/2020 00:16:41'') True 1,
                  Publish 0 ''homie/kitchen-sensor/$state'' (PStr ''ready'') True 1,
                  Publish 0 ''homie/kitchen-sensor/$nodes'' (PStr []) True 1,
                  Subscribe 0 ''homie/kitchen-sensor/$broadcast/#'' 0,
                  Set_Will 0 ''homie/kitchen-sensor/$state'' (PStr ''lost'') True 1]\<rparr>)"
    using inst started_sensor_ok
    by (simp add: spec_clock_reads_def spec_attribute_publishes_def
      spec_extension_publishes_def spec_stats_publishes_def spec_node_publishes_def
      spec_subscribe_calls_def spec_subscriptions_def spec_handlers_def store_handler_def
      spec_last_will_def started_sensor_def kitchen_sensor_def kitchen_settings_def
      fresh_env_def digit_def)
  have again: "run_on_connection [True, True]
       (snd (mqtt_on_connection True (started_sensor, fresh_env)))
       = snd (mqtt_on_connection True (started_sensor, fresh_env))"
    using inst by (simp add: numeral_2_eq_2)
  have off: "mqtt_on_connection False (started_sensor, fresh_env) =
       (None, started_sensor\<lparr>priv_mqtt_connected := False\<rparr>, fresh_env)"
    using inst by blast
  show ?thesis
    using started_sensor_ok edge again off by blast
qed

section \<open>Assigning the state\<close>

lemma state_setter_valid:
  "v \<in> set DEVICE_STATES \<Longrightarrow>
   state_setter v retain q (self, e) =
     (None, self\<lparr>priv_state := v\<rparr>,
      e\<lparr>log := log e @ [Publish (mqtt_client self) (topic self @ ''/$state'') v retain q]\<rparr>)"
  by (simp add: state_setter_def publish_apply)

lemma state_setter_invalid:
  "v \<notin> set DEVICE_STATES \<Longrightarrow>
   state_setter v retain q (self, e) = (None, self, e\<lparr>log := log e @ [Warning_Invalid_State v]\<rparr>)"
  by (simp add: state_setter_def emit_def)

text \<open>
  Claim C2. Assigning \<open>device.state = v\<close> with \<open>v\<close> in the state enumeration sets the
  in-memory state to \<open>v\<close> and makes exactly one call: the publish of \<open>v\<close> to the device's
  \<open>$state\<close> topic, retained, with qos 1. Assigning any other \<open>v\<close> raises nothing, leaves
  the device as it is and publishes nothing: the only call is the logger's warning.
\<close>

theorem state_assignment:
  "(v \<in> set DEVICE_STATES \<longrightarrow>
      assign_state v (self, e) =
        (None, self\<lparr>priv_state := v\<rparr>,
         e\<lparr>log := log e @ [Publish (mqtt_client self) (topic self @ ''/$state'') v True 1]\<rparr>))
   \<and> (v \<notin> set DEVICE_STATES \<longrightarrow>
      assign_state v (self, e) = (None, self, e\<lparr>log := log e @ [Warning_Invalid_State v]\<rparr>))"
  by (simp add: assign_state_def state_setter_valid state_setter_invalid)

theorem state_assignment_witness:
  "PStr ''sleeping'' \<in> set DEVICE_STATES
   \<and> assign_state (PStr ''sleeping'') (kitchen_sensor, fresh_env) =
       (None, kitchen_sensor\<lparr>priv_state := PStr ''sleeping''\<rparr>,
        fresh_env\<lparr>log := [Publish 0 ''homie/kitchen-sensor/$state'' (PStr ''sleeping'') True 1]\<rparr>)
   \<and> PStr ''broken'' \<notin> set DEVICE_STATES
   \<and> assign_state (PStr ''broken'') (kitchen_sensor, fresh_env) =
       (None, kitchen_sensor, fresh_env\<lparr>log := [Warning_Invalid_State (PStr ''broken'')]\<rparr>)"
  using state_assignment [of "PStr ''sleeping''" kitchen_sensor fresh_env]
    state_assignment [of "PStr ''broken''" kitchen_sensor fresh_env]
  by (simp add: DEVICE_STATES_def kitchen_sensor_def fresh_env_def)

theorem publish_attributes_before_start_counterexample:
  "init (Some ''kitchen-sensor'') (Some ''Kitchen'') (Some [''update_interval'' \<mapsto> PInt 30]) 0
     [''stats''] fresh_env
   = (Inr kitchen_sensor, fresh_env\<lparr>instance_count := 1\<rparr>)
   \<and> priv_state kitchen_sensor = PStr ''init''
   \<and> publish_attributes True 1 (kitchen_sensor, fresh_env) =
       (Some TypeError, kitchen_sensor,
        fresh_env\<lparr>clock_reads := 1,
          log := [Publish 0 ''homie/kitchen-sensor/$homie'' (PStr ''4.0.0'') True 1,
                  Publish 0 ''homie/kitchen-sensor/$name'' (PStr ''Kitchen'') True 1,
                  Publish 0 ''homie/kitchen-sensor/$implementation'' (PStr ''linux'') True 1,
                  Publish 0 ''homie/kitchen-sensor/$extensions'' (PStr ''stats'') True 1,
                  Publish 0 ''homie/kitchen-sensor/$stats/interval'' (PInt 30) True 1]\<rparr>)"
proof -
  have "publish_attributes True 1 (kitchen_sensor, fresh_env) =
       (Some TypeError, kitchen_sensor,
        fresh_env\<lparr>clock_reads := 1,
          log := [Publish 0 ''homie/kitchen-sensor/$homie'' (PStr ''4.0.0'') True 1,
                  Publish 0 ''homie/kitchen-sensor/$name'' (PStr ''Kitchen'') True 1,
                  Publish 0 ''homie/kitchen-sensor/$implementation'' (PStr ''linux'') True 1,
                  Publish 0 ''homie/kitchen-sensor/$extensions'' (PStr ''stats'') True 1,
                  Publish 0 ''homie/kitchen-sensor/$stats/interval'' (PInt 30) True 1]\<rparr>)"
    using publish_attributes_unstarted [OF kitchen_sensor_constructed, of True 1 fresh_env]
    by (simp add: kitchen_sensor_def kitchen_settings_def fresh_env_def)
  moreover have "priv_state kitchen_sensor = PStr ''init''"
    by (simp add: kitchen_sensor_def)
  ultimately show ?thesis
    using init_kitchen_sensor by blast
qed

text \<open>
  Claim C3, amended: for every constructed device whose start time is set, or which
  does not declare \<open>stats\<close>, \<open>publish_attributes()\<close> returns without an exception, having
  published, in this order, \<open>$homie\<close> (the \<open>version\<close> setting), \<open>$name\<close> (the device name),
  \<open>$implementation\<close>, then the extension attributes, and last the state: the device state
  is \<open>ready\<close>, and the last publish is \<open>$state = "ready"\<close>, retained with qos 1 whatever
  \<open>retain\<close> and \<open>qos\<close> were passed.
\<close>

theorem publish_attributes_order:
  assumes "constructed self" and "uptime_defined self"
  shows "publish_attributes retain q (self, e) =
     (None, self\<lparr>priv_state := PStr ''ready''\<rparr>,
      e\<lparr>clock_reads := clock_reads e + spec_clock_reads self,
        log := log e @
          [Publish (mqtt_client self) (topic self @ ''/$homie'')
             (the (homie_settings self ''version'')) retain q,
           Publish (mqtt_client self) (topic self @ ''/$name'') (PStr (name self)) retain q,
           Publish (mqtt_client self) (topic self @ ''/$implementation'')
             (the (homie_settings self ''implementation'')) retain q]
          @ spec_extension_publishes retain q self e
          @ [Publish (mqtt_client self) (topic self @ ''/$state'') (PStr ''ready'') True 1]\<rparr>)"
  using publish_attributes_ok [OF assms] by (simp add: spec_attribute_publishes_def)

theorem publish_attributes_order_witness:
  "constructed started_sensor \<and> uptime_defined started_sensor
   \<and> publish_attributes False 0 (started_sensor, fresh_env) =
       (None, started_sensor\<lparr>priv_state := PStr ''ready''\<rparr>,
        fresh_env\<lparr>clock_reads := 2,
          log := [Publish 0 ''homie/kitchen-sensor/$homie'' (PStr ''4.0.0'') False 0,
                  Publish 0 ''homie/kitchen-sensor/$name'' (PStr ''Kitchen'') False 0,
                  Publish 0 ''homie/kitchen-sensor/$implementation'' (PStr ''linux'') False 0,
                  Publish 0 ''homie/kitchen-sensor/$extensions'' (PStr ''stats'') False 0,
                  Publish 0 ''homie/kitchen-sensor/$stats/interval'' (PInt 30) False 0,
                  Publish 0 ''homie/kitchen-sensor/$stats/uptime'' (PFloat 0) False 0,
                  Publish 0 ''homie/kitchen-sensor/$stats/lastupdate''
                    (PStr ''01/01/2020 00:16:41'') False 0,
                  Publish 0 ''homie/kitchen-sensor/$state'' (PStr ''ready'') True 1]\<rparr>)"
proof -
  have c: "constructed started_sensor" and u: "uptime_defined started_sensor"
    using started_sensor_ok by blast+
  have "publish_attributes False 0 (started_sensor, fresh_env) =
       (None, started_sensor\<lparr>priv_state := PStr ''ready''\<rparr>,
        fresh_env\<lparr>clock_reads := 2,
          log := [Publish 0 ''homie/kitchen-sensor/$homie'' (PStr ''4.0.0'') False 0,
                  Publish 0 ''homie/kitchen-sensor/$name'' (PStr ''Kitchen'') False 0,
                  Publish 0 ''homie/kitchen-sensor/$implementation'' (PStr ''linux'') False 0,
                  Publish 0 ''homie/kitchen-sensor/$extensions'' (PStr ''stats'') False 0,
                  Publish 0 ''homie/kitchen-sensor/$stats/interval'' (PInt 30) False 0,
                  Publish 0 ''homie/kitchen-sensor/$stats/uptime'' (PFloat 0) False 0,
                  Publish 0 ''homie/kitchen-sensor/$stats/lastupdate''
                    (PStr ''01/01/2020 00:16:41'') False 0,
                  Publish 0 ''homie/kitchen-sensor/$state'' (PStr ''ready'') True 1]\<rparr>)"
    using publish_attributes_order [OF c u, of False 0 fresh_env]
    by (simp add: spec_clock_reads_def spec_extension_publishes_def spec_stats_publishes_def
        started_sensor_def kitchen_sensor_def kitchen_settings_def fresh_env_def digit_def)
  with c u show ?thesis by blast
qed

section \<open>Publishing the device attributes twice\<close>

lemma first_call_result:
  "first_call =
     (None, started_sensor\<lparr>priv_state := PStr ''ready''\<rparr>,
      fresh_env\<lparr>clock_reads := 2,
        log := [Publish 0 ''homie/kitchen-sensor/$homie'' (PStr ''4.0.0'') True 1,
                Publish 0 ''homie/kitchen-sensor/$name'' (PStr ''Kitchen'') True 1,
                Publish 0 ''homie/kitchen-sensor/$implementation'' (PStr ''linux'') True 1,
                Publish 0 ''homie/kitchen-sensor/$extensions'' (PStr ''stats'') True 1,
                Publish 0 ''homie/kitchen-sensor/$stats/interval'' (PInt 30) True 1,
                Publish 0 ''homie/kitchen-sensor/$stats/uptime'' (PFloat 0) True 1,
                Publish 0 ''homie/kitchen-sensor/$stats/lastupdate''
                  (PStr ''01/01/2020 00:16:41'') True 1,
                Publish 0 ''homie/kitchen-sensor/$state'' (PStr ''ready'') True 1]\<rparr>)"
proof -
  have c: "constructed started_sensor" and u: "uptime_defined started_sensor"
    using started_sensor_ok by blast+
  show ?thesis
    unfolding first_call_def publish_attributes_ok [OF c u]
    by (simp add: spec_clock_reads_def spec_attribute_publishes_def
        spec_extension_publishes_def spec_stats_publishes_def
        started_sensor_def kitchen_sensor_def kitchen_settings_def fresh_env_def digit_def)
qed

lemma second_call_calls:
  "calls_since (snd (snd first_call)) (snd (snd second_call)) =
     [Publish 0 ''homie/kitchen-sensor/$homie'' (PStr ''4.0.0'') True 1,
      Publish 0 ''homie/kitchen-sensor/$name'' (PStr ''Kitchen'') True 1,
      Publish 0 ''homie/kitchen-sensor/$implementation'' (PStr ''linux'') True 1,
      Publish 0 ''homie/kitchen-sensor/$extensions'' (PStr ''stats'') True 1,
      Publish 0 ''homie/kitchen-sensor/$stats/interval'' (PInt 30) True 1,
      Publish 0 ''homie/kitchen-sensor/$stats/uptime'' (PFloat 2) True 1,
      Publish 0 ''homie/kitchen-sensor/$stats/lastupdate'' (PStr ''01/01/2020 00:16:43'') True 1,
      Publish 0 ''homie/kitchen-sensor/$state'' (PStr ''ready'') True 1]"
proof -
  have c: "constructed (started_sensor\<lparr>priv_state := PStr ''ready''\<rparr>)"
    and u: "uptime_defined (started_sensor\<lparr>priv_state := PStr ''ready''\<rparr>)"
    using started_sensor_ok by (simp_all add: constructed_def uptime_defined_def)
  show ?thesis
    unfolding second_call_def first_call_result snd_conv publish_attributes_ok [OF c u]
    by (simp add: calls_since_def spec_clock_reads_def spec_attribute_publishes_def
        spec_extension_publishes_def spec_stats_publishes_def
        started_sensor_def kitchen_sensor_def kitchen_settings_def fresh_env_def digit_def)
qed

text \<open>
  Claim C4, as stated: calling \<open>publish_attributes()\<close> twice produces the same sequence of
  topic/payload publishes both times. With the stats extension the payloads of
  \<open>$stats/uptime\<close> and \<open>$stats/lastupdate\<close> are read from the clock at each call: two
  seconds later the second call publishes an uptime of 2 where the first published 0.
\<close>

theorem publish_attributes_twice_counterexample:
  "calls_since fresh_env (snd (snd first_call)) =
     [Publish 0 ''homie/kitchen-sensor/$homie'' (PStr ''4.0.0'') True 1,
      Publish 0 ''homie/kitchen-sensor/$name'' (PStr ''Kitchen'') True 1,
      Publish 0 ''homie/kitchen-sensor/$implementation'' (PStr ''linux'') True 1,
      Publish 0 ''homie/kitchen-sensor/$extensions'' (PStr ''stats'') True 1,
      Publish 0 ''homie/kitchen-sensor/$stats/interval'' (PInt 30) True 1,
      Publish 0 ''homie/kitchen-sensor/$stats/uptime'' (PFloat 0) True 1,
      Publish 0 ''homie/kitchen-sensor/$stats/lastupdate'' (PStr ''01/01/2020 00:16:41'') True 1,
      Publish 0 ''homie/kitchen-sensor/$state'' (PStr ''ready'') True 1]
   \<and> calls_since (snd (snd first_call)) (snd (snd second_call)) =
     [Publish 0 ''homie/kitchen-sensor/$homie'' (PStr ''4.0.0'') True 1,
      Publish 0 ''homie/kitchen-sensor/$name'' (PStr ''Kitchen'') True 1,
      Publish 0 ''homie/kitchen-sensor/$implementation'' (PStr ''linux'') True 1,
      Publish 0 ''homie/kitchen-sensor/$extensions'' (PStr ''stats'') True 1,
      Publish 0 ''homie/kitchen-sensor/$stats/interval'' (PInt 30) True 1,
      Publish 0 ''homie/kitchen-sensor/$stats/uptime'' (PFloat 2) True 1,
      Publish 0 ''homie/kitchen-sensor/$stats/lastupdate'' (PStr ''01/01/2020 00:16:43'') True 1,
      Publish 0 ''homie/kitchen-sensor/$state'' (PStr ''ready'') True 1]
   \<and> calls_since fresh_env (snd (snd first_call)) \<noteq>
       calls_since (snd (snd first_call)) (snd (snd second_call))"
  unfolding second_call_calls by (simp add: first_call_result calls_since_def fresh_env_def)

lemma spec_extension_publishes_cong:
  assumes "mqtt_client s' = mqtt_client s" "topic s' = topic s"
    "homie_settings s' = homie_settings s" "extensions s' = extensions s"
    "start_time s' = start_time s" "clients e' = clients e"
  shows "map (without_clock_payload (topic s)) (spec_extension_publishes retain q s' e')
       = map (without_clock_payload (topic s)) (spec_extension_publishes retain q s e)"
  using assms
  by (simp add: spec_extension_publishes_def spec_stats_publishes_def
      spec_firmware_publishes_def)

lemma spec_extension_publishes_no_stats:
  assumes "mqtt_client s' = mqtt_client s" "topic s' = topic s"
    "homie_settings s' = homie_settings s" "extensions s' = extensions s"
    "clients e' = clients e" "''stats'' \<notin> set (extensions s)"
  shows "spec_extension_publishes retain q s' e' = spec_extension_publishes retain q s e"
  using assms
  by (simp add: spec_extension_publishes_def spec_firmware_publishes_def)

text \<open>
  Claim C4, amended: for every constructed device whose start time is set, or which
  does not declare \<open>stats\<close>, two calls of \<open>publish_attributes()\<close> in a row both return
  without an exception, each ends with the device state \<open>ready\<close>, and the second makes
  the same sequence of publishes as the first (same topics, same retain and qos, same
  payloads) except for the payloads of \<open>$stats/uptime\<close> and \<open>$stats/lastupdate\<close>, which
  are read from the clock at each call. Without the stats extension the two sequences
  are identical.
\<close>

theorem publish_attributes_twice:
  assumes c: "constructed self" and u: "uptime_defined self"
  shows "let (r1, s1, e1) = publish_attributes retain q (self, e);
             (r2, s2, e2) = publish_attributes retain q (s1, e1)
         in r1 = None \<and> r2 = None
            \<and> priv_state s1 = PStr ''ready'' \<and> priv_state s2 = PStr ''ready''
            \<and> map (without_clock_payload (topic self)) (calls_since e1 e2)
                = map (without_clock_payload (topic self)) (calls_since e e1)
            \<and> (''stats'' \<notin> set (extensions self) \<longrightarrow> calls_since e1 e2 = calls_since e e1)"
proof -
  let ?s1 = "self\<lparr>priv_state := PStr ''ready''\<rparr>"
  let ?e1 = "e\<lparr>clock_reads := clock_reads e + spec_clock_reads self,
               log := log e @ spec_attribute_publishes retain q self e\<rparr>"
  have c1: "constructed ?s1" using c by (simp add: constructed_def)
  have u1: "uptime_defined ?s1" using u by (simp add: uptime_defined_def)
  have first: "publish_attributes retain q (self, e) = (None, ?s1, ?e1)"
    by (rule publish_attributes_ok [OF c u])
  have second: "publish_attributes retain q (?s1, ?e1) =
      (None, ?s1,
       ?e1\<lparr>clock_reads := clock_reads ?e1 + spec_clock_reads ?s1,
           log := log ?e1 @ spec_attribute_publishes retain q ?s1 ?e1\<rparr>)"
    using publish_attributes_ok [OF c1 u1, of retain q ?e1] by simp
  have same: "map (without_clock_payload (topic self)) (spec_attribute_publishes retain q ?s1 ?e1)
      = map (without_clock_payload (topic self)) (spec_attribute_publishes retain q self e)"
    using spec_extension_publishes_cong [of ?s1 self ?e1 e retain q]
    by (simp add: spec_attribute_publishes_def)
  have equal: "spec_attribute_publishes retain q ?s1 ?e1 = spec_attribute_publishes retain q self e"
    if "''stats'' \<notin> set (extensions self)"
    using spec_extension_publishes_no_stats [of ?s1 self ?e1 e retain q] that
    by (simp add: spec_attribute_publishes_def)
  show ?thesis
    unfolding first second Let_def prod.case
    using same equal
    by (simp add: calls_since_def)
qed

theorem publish_attributes_twice_witness:
  "constructed hall_lamp \<and> uptime_defined hall_lamp
   \<and> ''stats'' \<notin> set (extensions hall_lamp)
   \<and> (let (r1, s1, e1) = publish_attributes True 1 (hall_lamp, fresh_env);
            (r2, s2, e2) = publish_attributes True 1 (s1, e1)
        in r1 = None \<and> r2 = None
           \<and> priv_state s1 = PStr ''ready'' \<and> priv_state s2 = PStr ''ready''
           \<and> calls_since e1 e2 = calls_since fresh_env e1)
   \<and> constructed started_sensor \<and> uptime_defined started_sensor
   \<and> (let (r1, s1, e1) = publish_attributes True 1 (started_sensor, fresh_env);
            (r2, s2, e2) = publish_attributes True 1 (s1, e1)
        in r1 = None \<and> r2 = None
           \<and> priv_state s1 = PStr ''ready'' \<and> priv_state s2 = PStr ''ready''
           \<and> map (without_clock_payload ''homie/kitchen-sensor'') (calls_since e1 e2)
               = map (without_clock_payload ''homie/kitchen-sensor'') (calls_since fresh_env e1))"
proof -
  have c1: "constructed hall_lamp" and u1: "uptime_defined hall_lamp"
    using hall_lamp_ok by blast+
  have c2: "constructed started_sensor" and u2: "uptime_defined started_sensor"
    using started_sensor_ok by blast+
  have ns: "''stats'' \<notin> set (extensions hall_lamp)"
    by (simp add: hall_lamp_def)
  have t: "topic started_sensor = ''homie/kitchen-sensor''"
    by (simp add: started_sensor_def kitchen_sensor_def)
  have a: "let (r1, s1, e1) = publish_attributes True 1 (hall_lamp, fresh_env);
            (r2, s2, e2) = publish_attributes True 1 (s1, e1)
        in r1 = None \<and> r2 = None
           \<and> priv_state s1 = PStr ''ready'' \<and> priv_state s2 = PStr ''ready''
           \<and> calls_since e1 e2 = calls_since fresh_env e1"
    using publish_attributes_twice [OF c1 u1, of True 1 fresh_env] ns
    by (simp add: Let_def case_prod_unfold)
  have b: "let (r1, s1, e1) = publish_attributes True 1 (started_sensor, fresh_env);
            (r2, s2, e2) = publish_attributes True 1 (s1, e1)
        in r1 = None \<and> r2 = None
           \<and> priv_state s1 = PStr ''ready'' \<and> priv_state s2 = PStr ''ready''
           \<and> map (without_clock_payload ''homie/kitchen-sensor'') (calls_since e1 e2)
               = map (without_clock_payload ''homie/kitchen-sensor'') (calls_since fresh_env e1)"
    using publish_attributes_twice [OF c2 u2, of True 1 fresh_env]
    by (simp add: Let_def case_prod_unfold t)
  show ?thesis
    using c1 u1 ns a c2 u2 b by blast
qed

section \<open>The last will on a shared connection\<close>








section \<open>Inbound messages\<close>





section \<open>Construction\<close>

lemma uppercase_not_id_character: "c \<in> set uppercase \<Longrightarrow> c \<notin> set id_characters"
  by (auto simp: uppercase_def id_characters_def)

lemma validate_id_rejects:
  assumes "i = [] \<or> hd i = CHR ''-'' \<or> last i = CHR ''-'' \<or> (\<exists>c\<in>set i. c \<in> set uppercase)"
  shows "\<not> validate_id i"
proof
  assume v: "validate_id i"
  then have ne: "i \<noteq> []" and h: "hd i \<noteq> CHR ''-''" and l: "last i \<noteq> CHR ''-''"
    and a: "\<forall>c\<in>set i. c \<in> set id_characters"
    by (simp_all add: validate_id_def list_all_iff)
  from assms ne h l obtain c where "c \<in> set i" "c \<in> set uppercase" by blast
  with a uppercase_not_id_character show False by blast
qed

lemma init_invalid_id:
  "\<not> validate_id i \<Longrightarrow> fst (init (Some i) nm st cl exts e) = Inl AssertionError"
  by (simp add: init_def Let_def)

lemma init_no_name:
  "nm = None \<or> nm = Some [] \<Longrightarrow> fst (init did nm st cl exts e) = Inl AssertionError"
  by (auto simp: init_def Let_def)

lemma init_unsupported_extension:
  "\<not> list_all (\<lambda>x. x \<in> set EXTENSIONS) exts \<Longrightarrow>
   fst (init did nm st cl exts e) = Inl AssertionError"
  by (auto simp: init_def Let_def split: option.splits)

lemma fold_missing_settings:
  "fold (\<lambda>(setting, val) d. if d setting = None then d(setting \<mapsto> val) else d) kvs d k =
     (case d k of Some v \<Rightarrow> Some v | None \<Rightarrow> map_of kvs k)"
  by (induction kvs arbitrary: d) (auto split: option.splits if_splits)

lemma homie_validate_settings_Some:
  "homie_validate_settings (Some d) e k =
     (case d k of Some v \<Rightarrow> Some v | None \<Rightarrow> map_of (HOMIE_SETTINGS e) k)"
  by (simp add: homie_validate_settings_def fold_missing_settings)

lemma homie_validate_settings_keys:
  "k \<in> set [''version'', ''topic'', ''fw_name'', ''fw_version'', ''update_interval'',
            ''implementation''] \<Longrightarrow> homie_validate_settings st e k \<noteq> None"
proof (cases st)
  case None
  then show "k \<in> set [''version'', ''topic'', ''fw_name'', ''fw_version'', ''update_interval'',
            ''implementation''] \<Longrightarrow> homie_validate_settings st e k \<noteq> None"
    by (auto simp: homie_validate_settings_def HOMIE_SETTINGS_def)
next
  case (Some d)
  then show "k \<in> set [''version'', ''topic'', ''fw_name'', ''fw_version'', ''update_interval'',
            ''implementation''] \<Longrightarrow> homie_validate_settings st e k \<noteq> None"
    by (auto simp: homie_validate_settings_Some HOMIE_SETTINGS_def split: option.splits)
qed

lemma homie_validate_settings_topic:
  "topic_setting_is_str st \<Longrightarrow> \<exists>r. homie_validate_settings st e ''topic'' = Some (PStr r)"
proof (cases st)
  case None
  then show ?thesis
    by (simp add: homie_validate_settings_def HOMIE_SETTINGS_def)
next
  case (Some d)
  assume t: "topic_setting_is_str st"
  show ?thesis
  proof (cases "d ''topic''")
    case None
    with Some show ?thesis
      by (simp add: homie_validate_settings_Some HOMIE_SETTINGS_def)
  next
    case (Some v)
    with t \<open>st = Some d\<close> obtain r where "v = PStr r"
      by (cases v) (simp_all add: topic_setting_is_str_def)
    with Some \<open>st = Some d\<close> show ?thesis
      by (simp add: homie_validate_settings_Some)
  qed
qed

lemma init_valid:
  assumes v: "validate_id i" and n: "n \<noteq> []"
    and x: "list_all (\<lambda>x. x \<in> set EXTENSIONS) exts" and t: "topic_setting_is_str st"
  shows "\<exists>d. init (Some i) (Some n) st cl exts e = (Inr d, e\<lparr>instance_count := instance_count e + 1\<rparr>)
           \<and> device_id d = i \<and> name d = n \<and> extensions d = exts
           \<and> instance_number d = instance_count e + 1
           \<and> priv_state d = PStr ''init'' \<and> \<not> priv_mqtt_connected d \<and> constructed d"
proof -
  obtain r where r: "homie_validate_settings st (e\<lparr>instance_count := instance_count e + 1\<rparr>) ''topic''
      = Some (PStr r)"
    using homie_validate_settings_topic [OF t] by blast
  have k: "list_all (\<lambda>k. homie_validate_settings st (e\<lparr>instance_count := instance_count e + 1\<rparr>) k \<noteq> None)
      [''version'', ''topic'', ''fw_name'', ''fw_version'', ''update_interval'', ''implementation'']"
    unfolding list_all_iff using homie_validate_settings_keys by blast
  show ?thesis
    using v n x r k
    by (simp add: init_def Let_def getitem_def constructed_def)
qed

text \<open>
  Claim C7. Construction raises the assertion error and returns no device object (the
  instance counter has been incremented by then) for every device id that
  \<open>validate_id\<close> rejects, for a missing or empty name, and for every extensions list
  with a name outside \<open>stats\<close>, \<open>firmware\<close>, \<open>meta\<close>; the rejected ids include the empty
  id, every id with an uppercase letter, and every id that starts or ends with a hyphen.
  Construction returns a device, constructed with the given id, name and extensions,
  for every id that \<open>validate_id\<close> accepts with a non-empty name and supported
  extensions, the topic root of the settings being a string as its type says.
\<close>

theorem construction_validation:
  "(\<not> validate_id i \<longrightarrow> fst (init (Some i) nm st cl exts e) = Inl AssertionError)
   \<and> (nm = None \<or> nm = Some [] \<longrightarrow> fst (init did nm st cl exts e) = Inl AssertionError)
   \<and> (\<not> list_all (\<lambda>x. x \<in> set EXTENSIONS) exts \<longrightarrow>
        fst (init did nm st cl exts e) = Inl AssertionError)
   \<and> (i = [] \<or> hd i = CHR ''-'' \<or> last i = CHR ''-'' \<or> (\<exists>c\<in>set i. c \<in> set uppercase)
        \<longrightarrow> \<not> validate_id i)
   \<and> (validate_id i \<and> n \<noteq> [] \<and> list_all (\<lambda>x. x \<in> set EXTENSIONS) exts
        \<and> topic_setting_is_str st \<longrightarrow>
        (\<exists>d. init (Some i) (Some n) st cl exts e
                = (Inr d, e\<lparr>instance_count := instance_count e + 1\<rparr>)
             \<and> device_id d = i \<and> name d = n \<and> extensions d = exts
             \<and> instance_number d = instance_count e + 1
             \<and> priv_state d = PStr ''init'' \<and> \<not> priv_mqtt_connected d \<and> constructed d))"
proof (intro conjI)
  show "\<not> validate_id i \<longrightarrow> fst (init (Some i) nm st cl exts e) = Inl AssertionError"
    by (rule impI) (rule init_invalid_id)
  show "nm = None \<or> nm = Some [] \<longrightarrow> fst (init did nm st cl exts e) = Inl AssertionError"
    by (rule impI) (rule init_no_name)
  show "\<not> list_all (\<lambda>x. x \<in> set EXTENSIONS) exts \<longrightarrow>
        fst (init did nm st cl exts e) = Inl AssertionError"
    by (rule impI) (rule init_unsupported_extension)
  show "i = [] \<or> hd i = CHR ''-'' \<or> last i = CHR ''-'' \<or> (\<exists>c\<in>set i. c \<in> set uppercase)
        \<longrightarrow> \<not> validate_id i"
    by (rule impI) (rule validate_id_rejects)
  show "validate_id i \<and> n \<noteq> [] \<and> list_all (\<lambda>x. x \<in> set EXTENSIONS) exts
        \<and> topic_setting_is_str st \<longrightarrow>
        (\<exists>d. init (Some i) (Some n) st cl exts e
                = (Inr d, e\<lparr>instance_count := instance_count e + 1\<rparr>)
             \<and> device_id d = i \<and> name d = n \<and> extensions d = exts
             \<and> instance_number d = instance_count e + 1
             \<and> priv_state d = PStr ''init'' \<and> \<not> priv_mqtt_connected d \<and> constructed d)"
  proof (rule impI, elim conjE)
    assume "validate_id i" "n \<noteq> []" "list_all (\<lambda>x. x \<in> set EXTENSIONS) exts"
      "topic_setting_is_str st"
    then show "\<exists>d. init (Some i) (Some n) st cl exts e
                = (Inr d, e\<lparr>instance_count := instance_count e + 1\<rparr>)
             \<and> device_id d = i \<and> name d = n \<and> extensions d = exts
             \<and> instance_number d = instance_count e + 1
             \<and> priv_state d = PStr ''init'' \<and> \<not> priv_mqtt_connected d \<and> constructed d"
      by (rule init_valid)
  qed
qed

theorem construction_validation_witness:
  "\<not> validate_id ''Kitchen''
   \<and> fst (init (Some ''Kitchen'') (Some ''Kitchen'') (Some Map.empty) 0 [''stats''] fresh_env)
       = Inl AssertionError
   \<and> fst (init (Some ''kitchen-sensor'') None (Some Map.empty) 0 [''stats''] fresh_env)
       = Inl AssertionError
   \<and> \<not> list_all (\<lambda>x. x \<in> set EXTENSIONS) [''camera'']
   \<and> fst (init (Some ''kitchen-sensor'') (Some ''Kitchen'') (Some Map.empty) 0 [''camera'']
            fresh_env) = Inl AssertionError
   \<and> hd ''-kitchen'' = CHR ''-'' \<and> \<not> validate_id ''-kitchen''
   \<and> validate_id ''kitchen-sensor'' \<and> ''Kitchen'' \<noteq> []
   \<and> list_all (\<lambda>x. x \<in> set EXTENSIONS) [''stats'']
   \<and> topic_setting_is_str (Some Map.empty)
   \<and> (\<exists>d. init (Some ''kitchen-sensor'') (Some ''Kitchen'') (Some Map.empty) 0 [''stats'']
              fresh_env
            = (Inr d, fresh_env\<lparr>instance_count := instance_count fresh_env + 1\<rparr>)
          \<and> device_id d = ''kitchen-sensor'' \<and> name d = ''Kitchen''
          \<and> extensions d = [''stats'']
          \<and> instance_number d = instance_count fresh_env + 1
          \<and> priv_state d = PStr ''init'' \<and> \<not> priv_mqtt_connected d \<and> constructed d)"
proof -
  have k: "\<not> validate_id ''Kitchen''"
    by (simp add: validate_id_def id_characters_def)
  have a: "fst (init (Some ''Kitchen'') (Some ''Kitchen'') (Some Map.empty) 0 [''stats''] fresh_env)
       = Inl AssertionError"
    using construction_validation
      [of "''Kitchen''" "Some ''Kitchen''" "Some Map.empty" 0 "[''stats'']" fresh_env] k
    by blast
  have b: "fst (init (Some ''kitchen-sensor'') None (Some Map.empty) 0 [''stats''] fresh_env)
       = Inl AssertionError"
    using construction_validation
      [of "''Kitchen''" None "Some Map.empty" 0 "[''stats'']" fresh_env "Some ''kitchen-sensor''"]
    by blast
  have x: "\<not> list_all (\<lambda>x. x \<in> set EXTENSIONS) [''camera'']"
    by (simp add: EXTENSIONS_def)
  have c: "fst (init (Some ''kitchen-sensor'') (Some ''Kitchen'') (Some Map.empty) 0 [''camera'']
            fresh_env) = Inl AssertionError"
    using construction_validation
      [of "''Kitchen''" "Some ''Kitchen''" "Some Map.empty" 0 "[''camera'']" fresh_env
          "Some ''kitchen-sensor''"] x
    by blast
  have h: "hd ''-kitchen'' = CHR ''-''" by simp
  have d: "\<not> validate_id ''-kitchen''"
    using construction_validation
      [of "''-kitchen''" "Some ''Kitchen''" "Some Map.empty" 0 "[''stats'']" fresh_env] h
    by blast
  have v: "validate_id ''kitchen-sensor''" by (rule validate_kitchen)
  have n: "''Kitchen'' \<noteq> []" by simp
  have s: "list_all (\<lambda>x. x \<in> set EXTENSIONS) [''stats'']"
    by (simp add: EXTENSIONS_def)
  have t: "topic_setting_is_str (Some Map.empty)"
    by (simp add: topic_setting_is_str_def)
  have ok: "\<exists>d. init (Some ''kitchen-sensor'') (Some ''Kitchen'') (Some Map.empty) 0 [''stats'']
              fresh_env
            = (Inr d, fresh_env\<lparr>instance_count := instance_count fresh_env + 1\<rparr>)
          \<and> device_id d = ''kitchen-sensor'' \<and> name d = ''Kitchen''
          \<and> extensions d = [''stats'']
          \<and> instance_number d = instance_count fresh_env + 1
          \<and> priv_state d = PStr ''init'' \<and> \<not> priv_mqtt_connected d \<and> constructed d"
    using construction_validation
      [of "''kitchen-sensor''" "Some ''Kitchen''" "Some Map.empty" 0 "[''stats'']" fresh_env
          "Some ''kitchen-sensor''" "''Kitchen''"] v n s t
    by blast
  show ?thesis
    by (intro conjI) (fact k a b x c h d v n s t ok)+
qed

section \<open>The extension list\<close>

text \<open>
  Claim C8. For every constructed device: when the list of declared extensions is empty,
  \<open>publish_extensions\<close> makes no publish to \<open>$extensions\<close>; when it is not empty,
  \<open>$extensions\<close> is published exactly once, with the comma-joined list of the declared
  extension names as payload (\<open>stats,firmware,meta\<close> for the default list, as evaluated
  below). This holds of the calls made also when the statistics raise afterwards.
\<close>

theorem publish_extensions_list:
  assumes c: "constructed self"
  shows "filter (is_publish_to (topic self @ ''/$extensions''))
           (calls_since e (snd (snd (publish_extensions retain q (self, e)))))
     = (if extensions self = [] then []
        else [Publish (mqtt_client self) (topic self @ ''/$extensions'')
                (PStr (join '','' (extensions self))) retain q])"
proof (cases "uptime_defined self")
  case True
  show ?thesis
    by (simp add: publish_extensions_ok [OF c True] spec_extension_publishes_def
        spec_stats_publishes_def spec_firmware_publishes_def)
next
  case False
  then have st: "''stats'' \<in> set (extensions self)" and n: "start_time self = None"
    by (auto simp: uptime_defined_def)
  from st have "extensions self \<noteq> []" by auto
  then show ?thesis
    by (simp add: publish_extensions_unstarted [OF c st n])
qed

theorem publish_extensions_list_witness:
  "constructed full_sensor
   \<and> filter (is_publish_to ''homie/kitchen-sensor/$extensions'')
       (calls_since fresh_env (snd (snd (publish_extensions True 1 (full_sensor, fresh_env)))))
     = [Publish 0 ''homie/kitchen-sensor/$extensions'' (PStr ''stats,firmware,meta'') True 1]
   \<and> constructed started_sensor
   \<and> filter (is_publish_to ''homie/kitchen-sensor/$extensions'')
       (calls_since fresh_env (snd (snd (publish_extensions True 1 (started_sensor, fresh_env)))))
     = [Publish 0 ''homie/kitchen-sensor/$extensions'' (PStr ''stats'') True 1]
   \<and> constructed hall_lamp
   \<and> filter (is_publish_to ''homie/hall-lamp/$extensions'')
       (calls_since fresh_env (snd (snd (publish_extensions True 1 (hall_lamp, fresh_env))))) = []"
proof -
  have c0: "constructed full_sensor"
    by (simp add: constructed_def full_sensor_def started_sensor_def kitchen_sensor_def
        kitchen_settings_def EXTENSIONS_def)
  have c1: "constructed started_sensor" using started_sensor_ok by blast
  have c2: "constructed hall_lamp" using hall_lamp_ok by blast
  have "filter (is_publish_to ''homie/kitchen-sensor/$extensions'')
       (calls_since fresh_env (snd (snd (publish_extensions True 1 (full_sensor, fresh_env)))))
     = [Publish 0 ''homie/kitchen-sensor/$extensions'' (PStr ''stats,firmware,meta'') True 1]"
    using publish_extensions_list [OF c0, of fresh_env True 1]
    by (simp add: full_sensor_def started_sensor_def kitchen_sensor_def)
  moreover have "filter (is_publish_to ''homie/kitchen-sensor/$extensions'')
       (calls_since fresh_env (snd (snd (publish_extensions True 1 (started_sensor, fresh_env)))))
     = [Publish 0 ''homie/kitchen-sensor/$extensions'' (PStr ''stats'') True 1]"
    using publish_extensions_list [OF c1, of fresh_env True 1]
    by (simp add: started_sensor_def kitchen_sensor_def)
  moreover have "filter (is_publish_to ''homie/hall-lamp/$extensions'')
       (calls_since fresh_env (snd (snd (publish_extensions True 1 (hall_lamp, fresh_env))))) = []"
    using publish_extensions_list [OF c2, of fresh_env True 1]
    by (simp add: hall_lamp_def)
  ultimately show ?thesis using c0 c1 c2 by blast
qed

section \<open>Removing a subscription\<close>

text \<open>
  Claim C10. For a topic that is not in the subscription registry,
  \<open>remove_subscription(topic)\<close> raises the missing-key error; the transport's
  unsubscribe call for the topic has been made by then, and it is the only call; the
  registry, with the rest of the device, is unchanged.
\<close>

theorem remove_subscription_missing:
  "mqtt_subscription_handlers self tpc = None \<Longrightarrow>
   remove_subscription tpc (self, e) =
     (Some (KeyError tpc), self, e\<lparr>log := log e @ [Unsubscribe (mqtt_client self) tpc]\<rparr>)"
  by (simp add: remove_subscription_def seq_def emit_def getitem_def raise_def)

theorem remove_subscription_missing_witness:
  "mqtt_subscription_handlers kitchen_sensor ''homie/kitchen-sensor/lamp/set'' = None
   \<and> remove_subscription ''homie/kitchen-sensor/lamp/set'' (kitchen_sensor, fresh_env) =
       (Some (KeyError ''homie/kitchen-sensor/lamp/set''), kitchen_sensor,
        fresh_env\<lparr>log := [Unsubscribe 0 ''homie/kitchen-sensor/lamp/set'']\<rparr>)"
proof -
  have h: "mqtt_subscription_handlers kitchen_sensor ''homie/kitchen-sensor/lamp/set'' = None"
    by (simp add: kitchen_sensor_def)
  show ?thesis
    using h remove_subscription_missing [OF h, of fresh_env]
    by (simp add: kitchen_sensor_def fresh_env_def)
qed

end
